theory Spec2Isabelle
  imports Complex_Main "HOL-Library.Multiset" "HOL-Library.Sublist"
begin

section \<open>Data model (core/types.ts)\<close>

text \<open>
  JavaScript numbers are modelled as \<^typ>\<open>real\<close> (no NaN, no infinities); their
  arithmetic is exact, except where the parser turns the remaining fraction into a
  percentage, which is followed down to the rounding of binary64. Epoch-millisecond
  timestamps (\<open>Date.now()\<close>) are \<^typ>\<open>int\<close>.
  An optional field \<open>f?: T\<close> is a \<open>T option\<close>, \<open>None\<close> standing for \<open>undefined\<close>.
  Where two interfaces have a field of the same name, the field of the later record
  carries a suffix (\<open>label_h\<close>, \<open>models_r\<close>, \<open>models_s\<close>, and so on).
\<close>

record ModelQuota =
  modelId :: string
  label :: string
  remainingPercent :: real
  isExhausted :: bool
  resetTime :: "string option"
  timeUntilReset :: "string option"

record ModelInsights =
  burnRate :: real
  burnRateLabel :: string
  predictedExhaustion :: "real option"
  predictedExhaustionLabel :: "string option"
  sessionUsage :: real
  isActive :: bool
  isPinned :: bool
  historyData :: "real list"

record EnrichedModel = ModelQuota +
  insights :: ModelInsights

record CreditInfo =
  available :: real
  monthly :: real

datatype HealthLevel = excellent | good | low | critical

record HealthStatus =
  score :: real
  level :: HealthLevel
  label_h :: string

section \<open>InsightsEngine (core/InsightsEngine.ts)\<close>

subsection \<open>History storage\<close>

text \<open>
  \<open>HistoryEntry.models\<close> is a \<open>Record<string, number>\<close>: a map from model id to the
  remaining percentage (a model id is taken not to be the name of a member of
  \<open>Object.prototype\<close>, so that reading an id the entry lacks gives \<open>undefined\<close>). The
  persistent store \<open>vscode.Memento\<close> is a map from keys to the stored history arrays, which
  gives back what was stored; the engine only ever reads and writes \<open>STORAGE_KEY\<close>.
\<close>

record HistoryEntry =
  timestamp :: int
  models :: "string \<rightharpoonup> real"

type_synonym Memento = "string \<rightharpoonup> HistoryEntry list"

definition STORAGE_KEY :: string where
  "STORAGE_KEY = ''antigravity.quotaHistory_v2''"

definition MAX_HISTORY_HOURS :: int where
  "MAX_HISTORY_HOURS = 24"

definition MAX_HISTORY_POINTS :: nat where
  "MAX_HISTORY_POINTS = 200"

record InsightsEngine =
  history :: "HistoryEntry list"
  sessionStartTime :: int
  sessionStartQuotas :: "string \<rightharpoonup> real"
  lastActiveModelId :: "string option"
  globalState :: Memento

text \<open>\<open>Array.prototype.slice(-n)\<close>: the last \<open>n\<close> elements, the whole array when it is shorter.\<close>

definition slice_last :: "nat \<Rightarrow> 'a list \<Rightarrow> 'a list" where
  "slice_last n xs = drop (length xs - n) xs"

text \<open>\<open>globalState.get(STORAGE_KEY, [])\<close>: the stored value, or the default.\<close>

definition memento_get :: "Memento \<Rightarrow> string \<Rightarrow> HistoryEntry list \<Rightarrow> HistoryEntry list" where
  "memento_get g k dflt = (case g k of None \<Rightarrow> dflt | Some v \<Rightarrow> v)"

definition memento_update :: "Memento \<Rightarrow> string \<Rightarrow> HistoryEntry list \<Rightarrow> Memento" where
  "memento_update g k v = g(k \<mapsto> v)"

text \<open>Every function that reads \<open>Date.now()\<close> takes the reading as its argument \<open>now\<close>.\<close>

definition loadHistory :: "int \<Rightarrow> InsightsEngine \<Rightarrow> InsightsEngine" where
  "loadHistory now eng =
     (let stored = memento_get (globalState eng) STORAGE_KEY [];
          cutoff = now - MAX_HISTORY_HOURS * 60 * 60 * 1000
      in eng\<lparr>history := filter (\<lambda>e. timestamp e > cutoff) stored\<rparr>)"

definition saveHistory :: "int \<Rightarrow> InsightsEngine \<Rightarrow> InsightsEngine" where
  "saveHistory now eng =
     (let cutoff = now - MAX_HISTORY_HOURS * 60 * 60 * 1000;
          toStore = slice_last MAX_HISTORY_POINTS
                      (filter (\<lambda>e. timestamp e > cutoff) (history eng))
      in eng\<lparr>globalState := memento_update (globalState eng) STORAGE_KEY toStore\<rparr>)"

text \<open>The constructor: a fresh engine over the given store, history loaded from it.\<close>

definition new_InsightsEngine :: "int \<Rightarrow> Memento \<Rightarrow> InsightsEngine" where
  "new_InsightsEngine now g =
     loadHistory now
       \<lparr>history = [], sessionStartTime = now, sessionStartQuotas = Map.empty,
        lastActiveModelId = None, globalState = g\<rparr>"

definition clearHistory :: "InsightsEngine \<Rightarrow> InsightsEngine" where
  "clearHistory eng =
     eng\<lparr>history := [], globalState := memento_update (globalState eng) STORAGE_KEY []\<rparr>"

text \<open>The loop \<open>for (const model of models) entry.models[model.modelId] = ...\<close>.\<close>

fun snapshot_models :: "ModelQuota list \<Rightarrow> (string \<rightharpoonup> real) \<Rightarrow> (string \<rightharpoonup> real)" where
  "snapshot_models [] acc = acc"
| "snapshot_models (m # ms) acc = snapshot_models ms (acc(modelId m \<mapsto> remainingPercent m))"

definition recordHistory :: "int \<Rightarrow> ModelQuota list \<Rightarrow> InsightsEngine \<Rightarrow> InsightsEngine" where
  "recordHistory now ms eng =
     (let entry = \<lparr>timestamp = now, models = snapshot_models ms Map.empty\<rparr>
      in saveHistory now (eng\<lparr>history := history eng @ [entry]\<rparr>))"

fun initSessionTracking :: "ModelQuota list \<Rightarrow> InsightsEngine \<Rightarrow> InsightsEngine" where
  "initSessionTracking [] eng = eng"
| "initSessionTracking (m # ms) eng =
     initSessionTracking ms
       (if sessionStartQuotas eng (modelId m) = None
        then eng\<lparr>sessionStartQuotas := (sessionStartQuotas eng)(modelId m \<mapsto> remainingPercent m)\<rparr>
        else eng)"

subsection \<open>Model analysis\<close>

definition calculateBurnRate :: "InsightsEngine \<Rightarrow> string \<Rightarrow> real" where
  "calculateBurnRate eng mid =
     (if length (history eng) < 2 then 0
      else
        let oldest = history eng ! 0;
            newest = history eng ! (length (history eng) - 1)
        in case models oldest mid of
             None \<Rightarrow> 0
           | Some oldValue \<Rightarrow>
               (case models newest mid of
                  None \<Rightarrow> 0
                | Some newValue \<Rightarrow>
                    let deltaPercent = oldValue - newValue;
                        deltaHours = real_of_int (timestamp newest - timestamp oldest)
                                       / (1000 * 60 * 60)
                    in if deltaHours \<le> 0 then 0 else max 0 (deltaPercent / deltaHours)))"

definition calculateSessionUsage :: "InsightsEngine \<Rightarrow> string \<Rightarrow> real \<Rightarrow> real" where
  "calculateSessionUsage eng mid currentPercent =
     (case sessionStartQuotas eng mid of
        None \<Rightarrow> 0
      | Some startPercent \<Rightarrow> max 0 (startPercent - currentPercent))"

definition getHistoryData :: "InsightsEngine \<Rightarrow> string \<Rightarrow> real list" where
  "getHistoryData eng mid =
     map (\<lambda>entry. case models entry mid of None \<Rightarrow> 100 | Some v \<Rightarrow> v)
       (slice_last 20 (history eng))"

definition getBurnRateLabel :: "real \<Rightarrow> string" where
  "getBurnRateLabel r =
     (if r \<le> 0.5 then ''Minimal''
      else if r \<le> 2 then ''Slow''
      else if r \<le> 5 then ''Moderate''
      else if r \<le> 15 then ''Fast''
      else ''Very Fast'')"


text \<open>
  \<open>Math.max(...xs)\<close> and \<open>Math.min(...xs)\<close>. On the empty argument list JavaScript returns
  \<open>-Infinity\<close> and \<open>+Infinity\<close>; \<open>None\<close> stands for that infinity.
\<close>

fun math_max :: "real list \<Rightarrow> real option" where
  "math_max [] = None"
| "math_max (x # xs) = Some (case math_max xs of None \<Rightarrow> x | Some y \<Rightarrow> max x y)"

fun math_min :: "real list \<Rightarrow> real option" where
  "math_min [] = None"
| "math_min (x # xs) = Some (case math_min xs of None \<Rightarrow> x | Some y \<Rightarrow> min x y)"

text \<open>
  The first test of \<open>detectActiveModel\<close>: with at least two history points, the largest burn
  rate over all models exceeds 0.5 and the first model in the list that attains it has this
  model's id.
\<close>

definition highestBurnRate :: "InsightsEngine \<Rightarrow> ModelQuota \<Rightarrow> ModelQuota list \<Rightarrow> bool" where
  "highestBurnRate eng model allModels =
     (if length (history eng) \<ge> 2 then
        let burnRates = map (\<lambda>m. (modelId m, calculateBurnRate eng (modelId m))) allModels
        in case math_max (map snd burnRates) of
             None \<Rightarrow> False
           | Some maxBurnRate \<Rightarrow>
               if maxBurnRate > 0.5 then
                 (case find (\<lambda>b. snd b = maxBurnRate) burnRates of
                    None \<Rightarrow> False
                  | Some b \<Rightarrow> fst b = modelId model)
               else False
      else False)"

definition lowestRemaining :: "ModelQuota \<Rightarrow> ModelQuota list \<Rightarrow> bool" where
  "lowestRemaining model allModels =
     (case math_min (map remainingPercent allModels) of
        None \<Rightarrow> False
      | Some lowest \<Rightarrow> remainingPercent model = lowest \<and> lowest < 90)"

definition detectActiveModel :: "InsightsEngine \<Rightarrow> ModelQuota \<Rightarrow> ModelQuota list \<Rightarrow> bool" where
  "detectActiveModel eng model allModels =
     (if highestBurnRate eng model allModels then True
      else if lastActiveModelId eng = Some (modelId model) then True
      else if lowestRemaining model allModels then True
      else False)"

text \<open>
  \<open>String.prototype.toLowerCase\<close> on the ASCII letters (a \<^typ>\<open>char\<close> is a byte; other
  bytes are left as they are), and \<open>a.includes(b)\<close> as \<^const>\<open>sublist\<close>.
\<close>

definition toLowerChar :: "char \<Rightarrow> char" where
  "toLowerChar c =
     (let n = (of_char c :: nat) in if 65 \<le> n \<and> n \<le> 90 then char_of (n + 32) else c)"

definition toLowerCase :: "string \<Rightarrow> string" where
  "toLowerCase s = map toLowerChar s"

definition checkPinned :: "string \<Rightarrow> string list \<Rightarrow> bool" where
  "checkPinned lbl pinned =
     (if length pinned = 0 then False
      else list_ex (\<lambda>pin. sublist (toLowerCase pin) (toLowerCase lbl)) pinned)"

text \<open>Decimal rendering of a non-negative integer inside a template literal.\<close>

definition digit_char :: "nat \<Rightarrow> char" where
  "digit_char d = char_of (d + 48)"

fun decimal_string :: "nat \<Rightarrow> string" where
  "decimal_string n =
     (if 10 \<le> n then decimal_string (n div 10) @ [digit_char (n mod 10)]
      else [digit_char n])"

definition formatPrediction :: "real \<Rightarrow> string" where
  "formatPrediction hours =
     (if hours > 24 then
        let days = \<lfloor>hours / 24\<rfloor>
        in if days = 1 then ''~1 day'' else ''~'' @ decimal_string (nat days) @ '' days''
      else if hours > 1 then
        let h = \<lfloor>hours\<rfloor>;
            m = round ((hours - real_of_int h) * 60)
        in if m > 0 then ''~'' @ decimal_string (nat h) @ ''h '' @ decimal_string (nat m) @ ''m''
           else ''~'' @ decimal_string (nat h) @ ''h''
      else
        let mins = round (hours * 60)
        in if mins > 0 then ''~'' @ decimal_string (nat mins) @ ''m'' else ''<1m'')"

text \<open>
  \<open>analyzeModel\<close> reads the engine and, when the model is found active, writes
  \<open>lastActiveModelId\<close>: it returns the enriched model and the engine after the call.
\<close>

definition analyzeModel ::
  "int \<Rightarrow> InsightsEngine \<Rightarrow> ModelQuota \<Rightarrow> ModelQuota list \<Rightarrow> string list
     \<Rightarrow> EnrichedModel \<times> InsightsEngine" where
  "analyzeModel now eng model allModels pinned =
     (let rate = calculateBurnRate eng (modelId model);
          usage = calculateSessionUsage eng (modelId model) (remainingPercent model);
          active = detectActiveModel eng model allModels;
          pin = checkPinned (label model) pinned;
          hist = getHistoryData eng (modelId model);
          prediction =
            (if rate > 0 \<and> remainingPercent model > 0 then
               let hoursUntilEmpty = remainingPercent model / rate
               in (Some (real_of_int now + hoursUntilEmpty * 60 * 60 * 1000),
                   Some (formatPrediction hoursUntilEmpty))
             else if isExhausted model then (None, Some ''Exhausted'')
             else (None, Some ''Safe for now''));
          eng' = (if active then eng\<lparr>lastActiveModelId := Some (modelId model)\<rparr> else eng)
      in (\<lparr>modelId = modelId model, label = label model,
           remainingPercent = remainingPercent model, isExhausted = isExhausted model,
           resetTime = resetTime model, timeUntilReset = timeUntilReset model,
           insights =
             \<lparr>burnRate = rate, burnRateLabel = getBurnRateLabel rate,
              predictedExhaustion = fst prediction,
              predictedExhaustionLabel = snd prediction,
              sessionUsage = usage, isActive = active, isPinned = pin,
              historyData = hist\<rparr>\<rparr>,
          eng'))"

text \<open>\<open>models.map(model => this.analyzeModel(model, models, pinned))\<close>, in list order.\<close>

fun analyzeModels ::
  "int \<Rightarrow> InsightsEngine \<Rightarrow> ModelQuota list \<Rightarrow> ModelQuota list \<Rightarrow> string list
     \<Rightarrow> EnrichedModel list \<times> InsightsEngine" where
  "analyzeModels now eng [] allModels pinned = ([], eng)"
| "analyzeModels now eng (m # ms) allModels pinned =
     (let (e, eng1) = analyzeModel now eng m allModels pinned;
          (es, eng2) = analyzeModels now eng1 ms allModels pinned
      in (e # es, eng2))"

subsection \<open>Ordering and health\<close>

text \<open>The comparator handed to \<open>enriched.sort\<close>.\<close>

definition comparePriority :: "EnrichedModel \<Rightarrow> EnrichedModel \<Rightarrow> real" where
  "comparePriority a b =
     (if isPinned (insights a) \<and> \<not> isPinned (insights b) then - 1
      else if \<not> isPinned (insights a) \<and> isPinned (insights b) then 1
      else if isActive (insights a) \<and> \<not> isActive (insights b) then - 1
      else if \<not> isActive (insights a) \<and> isActive (insights b) then 1
      else remainingPercent a - remainingPercent b)"

text \<open>
  \<open>Array.prototype.sort(cmp)\<close> is a stable sort (ECMAScript 2019); it is modelled as the
  stable insertion sort: an element goes before the first one it does not compare greater
  than.
\<close>

fun insert_sorted :: "('a \<Rightarrow> 'a \<Rightarrow> real) \<Rightarrow> 'a \<Rightarrow> 'a list \<Rightarrow> 'a list" where
  "insert_sorted cmp x [] = [x]"
| "insert_sorted cmp x (y # ys) =
     (if cmp x y \<le> 0 then x # y # ys else y # insert_sorted cmp x ys)"

definition array_sort :: "('a \<Rightarrow> 'a \<Rightarrow> real) \<Rightarrow> 'a list \<Rightarrow> 'a list" where
  "array_sort cmp xs = foldr (insert_sorted cmp) xs []"

definition getHealthLevel :: "real \<Rightarrow> HealthLevel \<times> string" where
  "getHealthLevel s =
     (if s \<ge> 75 then (excellent, ''Excellent'')
      else if s \<ge> 50 then (good, ''Good'')
      else if s \<ge> 25 then (low, ''Low'')
      else (critical, ''Critical''))"

fun health_sums :: "EnrichedModel list \<Rightarrow> real \<times> real \<Rightarrow> real \<times> real" where
  "health_sums [] acc = acc"
| "health_sums (model # ms) (totalWeight, weightedSum) =
     (let weight = (if isActive (insights model) then 3 else 1)
      in health_sums ms (totalWeight + weight, weightedSum + remainingPercent model * weight))"

definition calculateHealth :: "EnrichedModel list \<Rightarrow> HealthStatus" where
  "calculateHealth ms =
     (if length ms = 0 then \<lparr>score = 100, level = excellent, label_h = ''Unknown''\<rparr>
      else
        let (totalWeight, weightedSum) = health_sums ms (0, 0);
            s = real_of_int (round (weightedSum / totalWeight));
            (lv, lb) = getHealthLevel s
        in \<lparr>score = s, level = lv, label_h = lb\<rparr>)"

record QuotaConfig =
  warningThreshold :: real
  refreshInterval :: real
  pinnedModels :: "string list"
  displayStyle :: string

text \<open>
  \<open>analyze\<close>: the sorted enriched models, the health status, and the engine after the call.
  The call is synchronous; its readings of \<open>Date.now()\<close> are taken to be one instant \<open>now\<close>.
\<close>

definition analyze ::
  "int \<Rightarrow> ModelQuota list \<Rightarrow> QuotaConfig \<Rightarrow> InsightsEngine
     \<Rightarrow> (EnrichedModel list \<times> HealthStatus) \<times> InsightsEngine" where
  "analyze now ms config eng =
     (let eng1 = recordHistory now ms eng;
          eng2 = initSessionTracking ms eng1;
          (enriched, eng3) = analyzeModels now eng2 ms ms (pinnedModels config);
          sorted = array_sort comparePriority enriched;
          health = calculateHealth sorted
      in ((sorted, health), eng3))"


section \<open>QuotaFetcher (core/QuotaFetcher.ts)\<close>

subsection \<open>The outside world\<close>

text \<open>
  A thrown exception or a rejected promise is a value \<open>Inl e\<close> of a sum type. Everything
  the fetcher does to the outside is logged as a list of events; probes of different
  ports run concurrently, so the log fixes which requests are issued, not the order in
  time of the requests to different ports.
\<close>

datatype js_error =
    TypeError
  | NotConnected
  | HttpError nat
  | JsonParseError
  | RequestError
  | RequestTimeout
  | ExecError

datatype event =
    TcpProbe nat
  | Handshake nat
  | Delay nat
  | StatusRequest nat

record ProcessInfo =
  pid :: nat
  extensionPort :: nat
  csrfToken :: string

record ConnectionParams =
  port :: nat
  csrfToken_c :: string

text \<open>
  The JSON document of the status endpoint, as far as \<open>parseResponse\<close> reads it. Every
  field may be missing (\<open>None\<close>); an entry of \<open>clientModelConfigs\<close> may be \<open>null\<close>
  (\<open>None\<close>), and so may the whole document (\<open>NullData\<close>). \<open>data.userStatus || data\<close>
  takes the document itself as the user status when it has no \<open>userStatus\<close> member.
\<close>

record RawQuotaInfo =
  remainingFraction :: "real option"
  resetTime_q :: "string option"

record RawModelOrAlias =
  model :: "string option"
  alias_m :: "string option"

record RawModelConfig =
  quotaInfo :: "RawQuotaInfo option"
  modelOrAlias :: "RawModelOrAlias option"
  label_m :: "string option"

record RawPlanInfo =
  planName_i :: "string option"
  teamsTier :: "string option"
  monthlyPromptCredits :: "real option"
  monthlyFlowCredits :: "real option"

record RawPlanStatus =
  planInfo :: "RawPlanInfo option"
  availablePromptCredits :: "real option"
  availableFlowCredits :: "real option"

record RawCascadeData =
  clientModelConfigs :: "RawModelConfig option list option"

record RawUserTier =
  name_t :: "string option"

record RawUserStatus =
  planStatus :: "RawPlanStatus option"
  cascadeModelConfigData :: "RawCascadeData option"
  name_u :: "string option"
  email_u :: "string option"
  userTier :: "RawUserTier option"

datatype StatusData =
    NullData
  | WithEnvelope RawUserStatus
  | BareStatus RawUserStatus

text \<open>
  What one HTTPS request meets: a network error, a timeout, or a response with its
  status code and, for the status endpoint, its body as \<open>JSON.parse\<close> reads it
  (\<open>None\<close> when the body is not JSON).
\<close>

datatype http_result =
    NetError
  | NetTimeout
  | HttpResponse nat "StatusData option"

text \<open>
  The world one discovery attempt or one status request sees: what the process scan
  returns or throws, which ports accept a TCP connection, what the handshake and the
  status endpoint answer on a port with a token, and how \<open>new Date(s).getTime()\<close> reads
  a reset time (\<open>None\<close> for an invalid date).
\<close>

record World =
  processScan :: "js_error + ProcessInfo option"
  portAccepts :: "nat \<Rightarrow> bool"
  handshakeReply :: "nat \<Rightarrow> string \<Rightarrow> http_result"
  statusReply :: "nat \<Rightarrow> string \<Rightarrow> http_result"
  dateParse :: "string \<Rightarrow> int option"

record QuotaFetcher =
  connection :: "ConnectionParams option"
  processName :: string
  isWindows :: bool

definition PORT_START :: nat where
  "PORT_START = 8090"

definition PORT_END :: nat where
  "PORT_END = 8150"

subsection \<open>Process detection and port scanning\<close>

text \<open>\<open>getProcessInfo\<close> catches whatever the platform scan throws and returns \<open>null\<close>.\<close>

definition getProcessInfo :: "World \<Rightarrow> ProcessInfo option" where
  "getProcessInfo w = (case processScan w of Inl e \<Rightarrow> None | Inr r \<Rightarrow> r)"

definition isPortOpen :: "World \<Rightarrow> nat \<Rightarrow> bool" where
  "isPortOpen w p = portAccepts w p"

definition testApiEndpoint :: "World \<Rightarrow> nat \<Rightarrow> string \<Rightarrow> bool" where
  "testApiEndpoint w p token =
     (case handshakeReply w p token of
        HttpResponse statusCode body \<Rightarrow> statusCode = 200
      | _ \<Rightarrow> False)"

record PortCheck =
  port_r :: nat
  works :: bool

definition checkPort :: "World \<Rightarrow> nat \<Rightarrow> string \<Rightarrow> PortCheck \<times> event list" where
  "checkPort w p token =
     (if \<not> isPortOpen w p then (\<lparr>port_r = p, works = False\<rparr>, [TcpProbe p])
      else (\<lparr>port_r = p, works = testApiEndpoint w p token\<rparr>, [TcpProbe p, Handshake p]))"

text \<open>
  \<open>findApiPort\<close> starts \<open>checkPort\<close> for every port of the window, awaits all of them
  (\<open>Promise.all\<close> keeps the order of the ports) and takes the first result that works.
\<close>

definition findApiPort :: "World \<Rightarrow> string \<Rightarrow> nat option \<times> event list" where
  "findApiPort w token =
     (let portChecks = map (\<lambda>p. checkPort w p token) [PORT_START ..< Suc PORT_END];
          results = map fst portChecks;
          workingPort = find works results
      in (map_option port_r workingPort, concat (map snd portChecks)))"

text \<open>
  The retry loop of \<open>connect\<close>: attempt \<open>attempt\<close> of \<open>maxRetries\<close> sees the world
  \<open>ws attempt\<close>. Nothing in the body of the \<open>try\<close> throws (the process scan catches its
  own errors, the probes resolve to \<open>false\<close>), so the \<open>catch\<close> branch has no case here.
  \<open>n\<close> counts the attempts left.
\<close>

fun connect_from ::
  "(nat \<Rightarrow> World) \<Rightarrow> nat \<Rightarrow> nat \<Rightarrow> nat \<Rightarrow> QuotaFetcher
     \<Rightarrow> bool \<times> QuotaFetcher \<times> event list" where
  "connect_from ws maxRetries attempt 0 f = (False, f, [])"
| "connect_from ws maxRetries attempt (Suc n) f =
     (let retry = (\<lambda>evs.
            let pause = (if attempt < maxRetries then [Delay 2000] else []);
                (ok, f', rest) = connect_from ws maxRetries (Suc attempt) n f
            in (ok, f', evs @ pause @ rest))
      in case getProcessInfo (ws attempt) of
           None \<Rightarrow> retry []
         | Some processInfo \<Rightarrow>
             if csrfToken processInfo = [] then retry []
             else
               (case findApiPort (ws attempt) (csrfToken processInfo) of
                  (None, evs) \<Rightarrow> retry evs
                | (Some p, evs) \<Rightarrow>
                    if p = 0 then retry evs
                    else (True,
                          f\<lparr>connection := Some \<lparr>port = p, csrfToken_c = csrfToken processInfo\<rparr>\<rparr>,
                          evs)))"

definition connect :: "(nat \<Rightarrow> World) \<Rightarrow> nat \<Rightarrow> QuotaFetcher \<Rightarrow> bool \<times> QuotaFetcher \<times> event list" where
  "connect ws maxRetries f = connect_from ws maxRetries 1 maxRetries f"


subsection \<open>The status request and its parsing\<close>

record UserInfo =
  name :: string
  email :: string
  planName :: string
  tier :: string

record RawQuotaResponse =
  timestamp_r :: int
  models_r :: "ModelQuota list"
  promptCredits :: "CreditInfo option"
  flowCredits :: "CreditInfo option"
  userInfo :: "UserInfo option"

text \<open>
  \<open>makeApiRequest\<close> rejects without a connection, on a network error, on a timeout, on a
  status other than 200 and on a body that is not JSON; otherwise it resolves to the
  parsed body.
\<close>

definition makeApiRequest :: "World \<Rightarrow> QuotaFetcher \<Rightarrow> (js_error + StatusData) \<times> event list" where
  "makeApiRequest w f =
     (case connection f of
        None \<Rightarrow> (Inl NotConnected, [])
      | Some c \<Rightarrow>
          (case statusReply w (port c) (csrfToken_c c) of
             NetError \<Rightarrow> Inl RequestError
           | NetTimeout \<Rightarrow> Inl RequestTimeout
           | HttpResponse statusCode body \<Rightarrow>
               if statusCode \<noteq> 200 then Inl (HttpError statusCode)
               else (case body of None \<Rightarrow> Inl JsonParseError | Some d \<Rightarrow> Inr d),
           [StatusRequest (port c)]))"

datatype CreditType = Prompt | Flow

text \<open>
  \<open>x || d\<close> on an optional number (0 is falsy) and on an optional string (the empty
  string is falsy), with a default that is returned as it is.
\<close>

definition num_or :: "real option \<Rightarrow> real \<Rightarrow> real" where
  "num_or x d = (case x of None \<Rightarrow> d | Some v \<Rightarrow> if v = 0 then d else v)"

definition str_or :: "string option \<Rightarrow> string \<Rightarrow> string" where
  "str_or x d = (case x of None \<Rightarrow> d | Some v \<Rightarrow> if v = [] then d else v)"

definition parseCredits :: "RawPlanStatus option \<Rightarrow> CreditType \<Rightarrow> CreditInfo option" where
  "parseCredits ps ty =
     (case ps of
        None \<Rightarrow> None
      | Some p \<Rightarrow>
          let avail = num_or (case ty of Prompt \<Rightarrow> availablePromptCredits p
                                       | Flow \<Rightarrow> availableFlowCredits p) 0;
              mon = num_or (case planInfo p of
                              None \<Rightarrow> None
                            | Some i \<Rightarrow> (case ty of Prompt \<Rightarrow> monthlyPromptCredits i
                                                   | Flow \<Rightarrow> monthlyFlowCredits i)) 0
          in if mon \<le> 0 then None else Some \<lparr>available = avail, monthly = mon\<rparr>)"

definition formatTime :: "int \<Rightarrow> string" where
  "formatTime ms =
     (if ms \<le> 0 then ''Ready''
      else
        let mins = \<lceil>real_of_int ms / 60000\<rceil>
        in if mins < 60 then decimal_string (nat mins) @ ''m''
           else
             let hours = mins div 60
             in decimal_string (nat hours) @ ''h '' @ decimal_string (nat (mins mod 60)) @ ''m'')"

text \<open>
  The remaining fraction is followed down to binary64, since the percentage depends on
  the last bit of the product. \<open>round64\<close> is the rounding of a real number to the
  nearest binary64 value, ties to the even significand: the significand has 53 bits, so a
  value of exponent \<open>e\<close> (at least \<open>-1022\<close>, below which the values are subnormal) is a
  multiple of \<open>2 ^ (e - 52)\<close>. Beyond the largest finite value JavaScript gives
  \<open>Infinity\<close>, which the model does not have. \<open>JSON.parse\<close> reads a number of the body
  as \<open>round64\<close> of the value written there, and \<open>a * b\<close> is \<open>round64\<close> of the exact
  product. \<open>Math.round\<close> is exact: \<open>\<lfloor>x + 1/2\<rfloor>\<close>, which is \<^const>\<open>round\<close>.
\<close>

definition round_half_even :: "real \<Rightarrow> int" where
  "round_half_even r =
     (let n = \<lfloor>r\<rfloor>; d = r - real_of_int n
      in if d < 1/2 then n else if d > 1/2 then n + 1 else if even n then n else n + 1)"

function exp_up :: "real \<Rightarrow> nat \<Rightarrow> nat" where
  "exp_up x k = (if 1024 \<le> k \<or> x < 2 ^ Suc k then k else exp_up x (Suc k))"
  by pat_completeness auto
termination
  by (relation "measure (\<lambda>(x, k). 1024 - k)") auto

function exp_down :: "real \<Rightarrow> nat \<Rightarrow> nat" where
  "exp_down x k = (if 1022 \<le> k \<or> 1 \<le> x * 2 ^ k then k else exp_down x (Suc k))"
  by pat_completeness auto
termination
  by (relation "measure (\<lambda>(x, k). 1022 - k)") auto

definition exponent64 :: "real \<Rightarrow> int" where
  "exponent64 x = (if 1 \<le> x then int (exp_up x 0) else - int (exp_down x 1))"

definition scale2 :: "real \<Rightarrow> int \<Rightarrow> real" where
  "scale2 x k = (if 0 \<le> k then x * 2 ^ nat k else x / 2 ^ nat (- k))"

definition round64 :: "real \<Rightarrow> real" where
  "round64 x =
     (if x = 0 then 0
      else
        let a = \<bar>x\<bar>;
            q = exponent64 a - 52;
            m = round_half_even (scale2 a (- q))
        in sgn x * scale2 (real_of_int m) q)"

text \<open>The product \<open>a * b\<close> of two numbers.\<close>

definition times64 :: "real \<Rightarrow> real \<Rightarrow> real" where
  "times64 a b = round64 (a * b)"

text \<open>
  The body of the loop over \<open>rawModels\<close> for an entry that carries quota info; the
  \<open>remainingFraction\<close> of the raw entry is the number as the body writes it. An invalid
  reset time makes \<open>diff\<close> NaN, which \<open>formatTime\<close> renders as \<open>NaNh NaNm\<close>.
\<close>

definition parseModel :: "int \<Rightarrow> World \<Rightarrow> RawModelConfig \<Rightarrow> RawQuotaInfo \<Rightarrow> ModelQuota" where
  "parseModel now w m q =
     (let fraction = (case remainingFraction q of None \<Rightarrow> 1 | Some v \<Rightarrow> round64 v);
          percent = real_of_int (round (times64 fraction 100));
          reset = (case resetTime_q q of
                     None \<Rightarrow> (None, None)
                   | Some s \<Rightarrow>
                       if s = [] then (None, None)
                       else (Some s,
                             Some (case dateParse w s of
                                     None \<Rightarrow> ''NaNh NaNm''
                                   | Some t \<Rightarrow> formatTime (t - now))))
      in \<lparr>modelId =
            str_or (case modelOrAlias m of None \<Rightarrow> None | Some a \<Rightarrow> model a)
              (str_or (case modelOrAlias m of None \<Rightarrow> None | Some a \<Rightarrow> alias_m a)
                 ''unknown''),
          label = str_or (label_m m) ''Unknown Model'',
          remainingPercent = percent,
          isExhausted = (fraction = 0),
          resetTime = fst reset,
          timeUntilReset = snd reset\<rparr>)"

text \<open>
  The loop \<open>for (const model of rawModels)\<close>: reading \<open>quotaInfo\<close> of a \<open>null\<close> entry
  throws; an entry without quota info is skipped.
\<close>

fun parseModels :: "int \<Rightarrow> World \<Rightarrow> RawModelConfig option list \<Rightarrow> js_error + ModelQuota list" where
  "parseModels now w [] = Inr []"
| "parseModels now w (None # rest) = Inl TypeError"
| "parseModels now w (Some m # rest) =
     (case quotaInfo m of
        None \<Rightarrow> parseModels now w rest
      | Some q \<Rightarrow>
          (case parseModels now w rest of
             Inl e \<Rightarrow> Inl e
           | Inr ms \<Rightarrow> Inr (parseModel now w m q # ms)))"

text \<open>
  \<open>data.userStatus || data\<close>: reading a member of \<open>null\<close> throws (\<open>None\<close>); otherwise the
  envelope's user status, or the document itself. \<open>cascadeData?.clientModelConfigs || []\<close>
  is the list of raw model entries.
\<close>

definition userStatusOf :: "StatusData \<Rightarrow> RawUserStatus option" where
  "userStatusOf d =
     (case d of NullData \<Rightarrow> None | WithEnvelope u \<Rightarrow> Some u | BareStatus u \<Rightarrow> Some u)"

definition rawModelsOf :: "RawUserStatus \<Rightarrow> RawModelConfig option list" where
  "rawModelsOf userStatus =
     (case cascadeModelConfigData userStatus of
        None \<Rightarrow> []
      | Some c \<Rightarrow> (case clientModelConfigs c of None \<Rightarrow> [] | Some l \<Rightarrow> l))"

definition parseUserInfo :: "RawUserStatus \<Rightarrow> UserInfo" where
  "parseUserInfo userStatus =
     (let info = (case planStatus userStatus of None \<Rightarrow> None | Some p \<Rightarrow> planInfo p)
      in \<lparr>name = str_or (name_u userStatus) ''Unknown User'',
          email = str_or (email_u userStatus) [],
          planName = str_or (case info of None \<Rightarrow> None | Some i \<Rightarrow> planName_i i) ''Free'',
          tier =
            str_or (case userTier userStatus of None \<Rightarrow> None | Some t \<Rightarrow> name_t t)
              (str_or (case info of None \<Rightarrow> None | Some i \<Rightarrow> teamsTier i) ''Free'')\<rparr>)"

definition parseResponse :: "int \<Rightarrow> World \<Rightarrow> StatusData \<Rightarrow> js_error + RawQuotaResponse" where
  "parseResponse now w d =
     (case userStatusOf d of
        None \<Rightarrow> Inl TypeError
      | Some userStatus \<Rightarrow>
          (case parseModels now w (rawModelsOf userStatus) of
             Inl e \<Rightarrow> Inl e
           | Inr ms \<Rightarrow>
               Inr \<lparr>timestamp_r = now, models_r = ms,
                    promptCredits = parseCredits (planStatus userStatus) Prompt,
                    flowCredits = parseCredits (planStatus userStatus) Flow,
                    userInfo = Some (parseUserInfo userStatus)\<rparr>))"

text \<open>
  \<open>fetch\<close>: the value is \<open>Inl e\<close> if the call throws \<open>e\<close>, \<open>Inr None\<close> for \<open>null\<close>. A missing
  connection is looked for with \<open>connect()\<close> (three attempts, seeing the worlds \<open>ws\<close>); the
  status request sees the world \<open>w\<close>. The \<open>try\<close> block covers the request and the parsing.
\<close>

definition fetch ::
  "int \<Rightarrow> (nat \<Rightarrow> World) \<Rightarrow> World \<Rightarrow> QuotaFetcher
     \<Rightarrow> (js_error + RawQuotaResponse option) \<times> QuotaFetcher \<times> event list" where
  "fetch now ws w f =
     (let (connected, f1, evs1) =
            (if connection f = None then connect ws 3 f else (True, f, []))
      in if \<not> connected then (Inr None, f1, evs1)
         else
           let (response, evs2) = makeApiRequest w f1
           in case (case response of Inl e \<Rightarrow> Inl e | Inr d \<Rightarrow> parseResponse now w d) of
                Inl err \<Rightarrow> (Inr None, f1\<lparr>connection := None\<rparr>, evs1 @ evs2)
              | Inr r \<Rightarrow> (Inr (Some r), f1, evs1 @ evs2))"

section \<open>QuotaStore (core/QuotaStore.ts)\<close>

record QuotaState =
  models_s :: "EnrichedModel list"
  promptCredits_s :: "CreditInfo option"
  flowCredits_s :: "CreditInfo option"
  health :: HealthStatus
  sessionStart :: int
  lastUpdate :: int
  isLoading :: bool
  error :: "string option"

text \<open>
  The payload of \<open>UPDATE\<close> is spread over the state: an optional member overwrites the
  state's only if the payload has the key (\<open>Some v\<close>, where \<open>v\<close> may be \<open>undefined\<close>).
\<close>

record UpdatePayload =
  models_p :: "EnrichedModel list"
  promptCredits_p :: "CreditInfo option option"
  flowCredits_p :: "CreditInfo option option"
  health_p :: HealthStatus
  lastUpdate_p :: int

datatype QuotaAction =
    LOADING
  | UPDATE UpdatePayload
  | ERROR string
  | CLEAR_ERROR

definition createDefaultState :: "int \<Rightarrow> QuotaState" where
  "createDefaultState now =
     \<lparr>models_s = [], promptCredits_s = None, flowCredits_s = None,
      health = \<lparr>score = 100, level = excellent, label_h = ''Unknown''\<rparr>,
      sessionStart = now, lastUpdate = now, isLoading = False, error = None\<rparr>"

fun reduce :: "int \<Rightarrow> QuotaState \<Rightarrow> QuotaAction \<Rightarrow> QuotaState" where
  "reduce now st LOADING = st\<lparr>isLoading := True, error := None\<rparr>"
| "reduce now st (UPDATE payload) =
     st\<lparr>models_s := models_p payload,
        promptCredits_s :=
          (case promptCredits_p payload of None \<Rightarrow> promptCredits_s st | Some v \<Rightarrow> v),
        flowCredits_s :=
          (case flowCredits_p payload of None \<Rightarrow> flowCredits_s st | Some v \<Rightarrow> v),
        health := health_p payload,
        isLoading := False,
        error := None,
        lastUpdate := now\<rparr>"
| "reduce now st (ERROR payload) = st\<lparr>isLoading := False, error := Some payload\<rparr>"
| "reduce now st CLEAR_ERROR = st\<lparr>error := None\<rparr>"

text \<open>
  The store holds the state and its subscribers, here named by numbers in the order they
  subscribed. Each of the four actions makes \<open>reduce\<close> build a new state object, so the
  test \<open>this.state !== prevState\<close> holds and every subscriber is handed the new state;
  \<open>dispatch\<close> returns the store and the notifications delivered.
\<close>

record QuotaStore =
  state :: QuotaState
  subscribers :: "nat list"

definition notifySubscribers :: "QuotaStore \<Rightarrow> (nat \<times> QuotaState) list" where
  "notifySubscribers store = map (\<lambda>subscriber. (subscriber, state store)) (subscribers store)"

definition dispatch :: "int \<Rightarrow> QuotaAction \<Rightarrow> QuotaStore \<Rightarrow> QuotaStore \<times> (nat \<times> QuotaState) list" where
  "dispatch now action store =
     (let prevState = state store;
          store' = store\<lparr>state := reduce now prevState action\<rparr>
      in (store', notifySubscribers store'))"


section \<open>Notions of the specification\<close>

text \<open>
  The definitions of this section are not taken from the code: they say, in the words of
  the specification, what the theorems below compare the code with.
\<close>

text \<open>An entry is newer than the 24-hour cutoff of a save or load at time \<open>now\<close>.\<close>

definition newer_than :: "int \<Rightarrow> HistoryEntry \<Rightarrow> bool" where
  "newer_than now e \<longleftrightarrow> timestamp e > now - 24 * 60 * 60 * 1000"

text \<open>
  The order of the result list: pinned before unpinned, then active before inactive,
  then the smaller remaining percentage first.
\<close>

definition priority_le :: "EnrichedModel \<Rightarrow> EnrichedModel \<Rightarrow> bool" where
  "priority_le a b \<longleftrightarrow>
     (isPinned (insights a) \<and> \<not> isPinned (insights b))
     \<or> (isPinned (insights a) = isPinned (insights b)
         \<and> ((isActive (insights a) \<and> \<not> isActive (insights b))
             \<or> (isActive (insights a) = isActive (insights b)
                 \<and> remainingPercent a \<le> remainingPercent b)))"

text \<open>
  The entries of the raw model list that carry quota info, and what the parsed quota of
  such an entry must be. The remaining fraction \<open>f\<close> is the number the program reads,
  the binary64 value of what the body writes; the percentage is the product of \<open>f\<close> and
  100, as the program's arithmetic gives it, rounded to an integer; it lies within 0 and
  100 when \<open>f\<close> lies within 0 and 1; and the quota is exhausted exactly when \<open>f\<close> is 0.
  An entry without a remaining fraction counts as full.
\<close>

definition quota_entries :: "RawModelConfig option list \<Rightarrow> (RawModelConfig \<times> RawQuotaInfo) list" where
  "quota_entries raws =
     concat (map (\<lambda>entry. case entry of
                             None \<Rightarrow> []
                           | Some m \<Rightarrow> (case quotaInfo m of None \<Rightarrow> [] | Some q \<Rightarrow> [(m, q)]))
               raws)"

definition percent_of_fraction :: "RawQuotaInfo \<Rightarrow> ModelQuota \<Rightarrow> bool" where
  "percent_of_fraction q x =
     (case remainingFraction q of
        None \<Rightarrow> remainingPercent x = 100 \<and> \<not> isExhausted x
      | Some v \<Rightarrow>
          (let f = round64 v
           in remainingPercent x = real_of_int (round (times64 f 100))
              \<and> (0 \<le> f \<and> f \<le> 1 \<longrightarrow> 0 \<le> remainingPercent x \<and> remainingPercent x \<le> 100)
              \<and> (0 \<le> v \<and> v \<le> 1 \<longrightarrow> 0 \<le> f \<and> f \<le> 1)
              \<and> (isExhausted x \<longleftrightarrow> f = 0)))"

text \<open>A port validates when it accepts a connection and answers the handshake with 200.\<close>

definition validates :: "World \<Rightarrow> string \<Rightarrow> nat \<Rightarrow> bool" where
  "validates w token p \<longleftrightarrow> isPortOpen w p \<and> testApiEndpoint w p token"

text \<open>
  The tests of the active model, for one model: it is the first model that attains
  the largest burn rate, which exceeds 0.5, over a history of at least two points; or its
  remaining percentage is the least of all and below 90. (The test on the id last found
  active reads a field of the engine.)
\<close>

definition top_burn_rate :: "InsightsEngine \<Rightarrow> ModelQuota list \<Rightarrow> real" where
  "top_burn_rate eng allModels = Max (set (map (\<lambda>m. calculateBurnRate eng (modelId m)) allModels))"

definition active_by_burn_rate :: "InsightsEngine \<Rightarrow> ModelQuota \<Rightarrow> ModelQuota list \<Rightarrow> bool" where
  "active_by_burn_rate eng m allModels \<longleftrightarrow>
     length (history eng) \<ge> 2 \<and> allModels \<noteq> [] \<and> top_burn_rate eng allModels > 1/2
     \<and> (\<exists>i < length allModels.
           calculateBurnRate eng (modelId (allModels ! i)) = top_burn_rate eng allModels
           \<and> (\<forall>j < i. calculateBurnRate eng (modelId (allModels ! j)) \<noteq> top_burn_rate eng allModels)
           \<and> modelId (allModels ! i) = modelId m)"

definition active_by_lowest :: "ModelQuota \<Rightarrow> ModelQuota list \<Rightarrow> bool" where
  "active_by_lowest m allModels \<longleftrightarrow>
     allModels \<noteq> [] \<and> remainingPercent m = Min (set (map remainingPercent allModels))
     \<and> Min (set (map remainingPercent allModels)) < 90"

text \<open>
  For \<open>fetch\<close>: the events that are status requests; the fetcher that issues the status
  request (the given one, or the one discovery leaves when no connection is cached); and
  the failure of the status request over a connection: the endpoint does not answer
  with status 200 and a JSON body, or the parsing of that body throws.
\<close>

fun is_status_request :: "event \<Rightarrow> bool" where
  "is_status_request (StatusRequest p) = True"
| "is_status_request _ = False"

definition connected_fetcher :: "(nat \<Rightarrow> World) \<Rightarrow> QuotaFetcher \<Rightarrow> QuotaFetcher" where
  "connected_fetcher ws f = (if connection f = None then fst (snd (connect ws 3 f)) else f)"

definition status_fails :: "int \<Rightarrow> World \<Rightarrow> ConnectionParams \<Rightarrow> bool" where
  "status_fails now w c \<longleftrightarrow>
     (case statusReply w (port c) (csrfToken_c c) of
        HttpResponse statusCode body \<Rightarrow>
          (case body of
             None \<Rightarrow> True
           | Some d \<Rightarrow> statusCode \<noteq> 200 \<or> isl (parseResponse now w d))
      | _ \<Rightarrow> True)"

section \<open>Concrete inputs\<close>

text \<open>An engine whose history holds two points one hour apart, model A falling from 100 to 80.\<close>

definition two_points :: InsightsEngine where
  "two_points =
     \<lparr>history = [\<lparr>timestamp = 1000, models = [''A'' \<mapsto> 100]\<rparr>,
                 \<lparr>timestamp = 3601000, models = [''A'' \<mapsto> 80]\<rparr>],
      sessionStartTime = 0, sessionStartQuotas = Map.empty,
      lastActiveModelId = None, globalState = Map.empty\<rparr>"

text \<open>
  A first poll with two models: A is at 60 percent, B is at 90 percent and pinned by the
  configured string \<open>beta\<close>.
\<close>

definition fresh_engine :: InsightsEngine where
  "fresh_engine = new_InsightsEngine 0 Map.empty"

definition model_A :: ModelQuota where
  "model_A = \<lparr>modelId = ''A'', label = ''Alpha'', remainingPercent = 60, isExhausted = False,
              resetTime = None, timeUntilReset = None\<rparr>"

definition model_B :: ModelQuota where
  "model_B = \<lparr>modelId = ''B'', label = ''Beta'', remainingPercent = 90, isExhausted = False,
              resetTime = None, timeUntilReset = None\<rparr>"

definition pin_beta :: QuotaConfig where
  "pin_beta = \<lparr>warningThreshold = 25, refreshInterval = 60, pinnedModels = [''beta''],
               displayStyle = ''percentage''\<rparr>"

definition first_poll :: "(EnrichedModel list \<times> HealthStatus) \<times> InsightsEngine" where
  "first_poll = analyze 5000 [model_A, model_B] pin_beta fresh_engine"

text \<open>
  A second poll one hour after the first: A has fallen from 100 to 80, B has stayed at 60;
  nothing is pinned and no model was active before.
\<close>

definition one_point :: InsightsEngine where
  "one_point =
     \<lparr>history = [\<lparr>timestamp = 0, models = [''A'' \<mapsto> 100, ''B'' \<mapsto> 60]\<rparr>],
      sessionStartTime = 0, sessionStartQuotas = [''A'' \<mapsto> 100, ''B'' \<mapsto> 60],
      lastActiveModelId = None, globalState = Map.empty\<rparr>"

definition model_A80 :: ModelQuota where
  "model_A80 = \<lparr>modelId = ''A'', label = ''Alpha'', remainingPercent = 80, isExhausted = False,
                resetTime = None, timeUntilReset = None\<rparr>"

definition model_B60 :: ModelQuota where
  "model_B60 = \<lparr>modelId = ''B'', label = ''Beta'', remainingPercent = 60, isExhausted = False,
                resetTime = None, timeUntilReset = None\<rparr>"

definition no_pins :: QuotaConfig where
  "no_pins = \<lparr>warningThreshold = 25, refreshInterval = 60, pinnedModels = [],
              displayStyle = ''percentage''\<rparr>"

definition second_poll :: "(EnrichedModel list \<times> HealthStatus) \<times> InsightsEngine" where
  "second_poll = analyze 3600000 [model_A80, model_B60] no_pins one_point"

text \<open>
  A process that polls at time 0, with model A at 100 percent, and next ten days later
  (the server was not reachable in between, so no poll reached \<open>analyze\<close>), with A at 50.
\<close>

definition model_A100 :: ModelQuota where
  "model_A100 = \<lparr>modelId = ''A'', label = ''Alpha'', remainingPercent = 100, isExhausted = False,
                 resetTime = None, timeUntilReset = None\<rparr>"

definition model_A50 :: ModelQuota where
  "model_A50 = \<lparr>modelId = ''A'', label = ''Alpha'', remainingPercent = 50, isExhausted = False,
                resetTime = None, timeUntilReset = None\<rparr>"

definition stale_poll :: "(EnrichedModel list \<times> HealthStatus) \<times> InsightsEngine" where
  "stale_poll =
     analyze 864000000 [model_A50] no_pins (snd (analyze 0 [model_A100] no_pins fresh_engine))"

text \<open>
  An engine with three history entries, the first of them older than 24 hours at the
  time 90000002 of the save.
\<close>

definition three_entries :: InsightsEngine where
  "three_entries =
     \<lparr>history = [\<lparr>timestamp = 0, models = [''A'' \<mapsto> 100]\<rparr>,
                 \<lparr>timestamp = 90000000, models = [''A'' \<mapsto> 90]\<rparr>,
                 \<lparr>timestamp = 90000001, models = [''A'' \<mapsto> 80]\<rparr>],
      sessionStartTime = 0, sessionStartQuotas = Map.empty,
      lastActiveModelId = None, globalState = Map.empty\<rparr>"

text \<open>
  A world with the language server on port 8095 and token \<open>abc123\<close>, whose status
  endpoint times out; a status document with six model entries, among them the
  fractions 0.045 and 0.145; a world where the ports 8090 and 8091 both answer the
  handshake; a fetcher without a connection; a world whose status endpoint serves the
  status document, and a fetcher with a cached connection to it.
\<close>

definition sample_world :: World where
  "sample_world =
     \<lparr>processScan = Inr (Some \<lparr>pid = 4242, extensionPort = 0, csrfToken = ''abc123''\<rparr>),
      portAccepts = (\<lambda>p. p = 8095),
      handshakeReply = (\<lambda>p token. if p = 8095 \<and> token = ''abc123'' then HttpResponse 200 None else NetError),
      statusReply = (\<lambda>p token. NetTimeout),
      dateParse = (\<lambda>s. None)\<rparr>"

definition sample_entry :: "string \<Rightarrow> real option \<Rightarrow> RawModelConfig option" where
  "sample_entry n f =
     Some \<lparr>quotaInfo = Some \<lparr>remainingFraction = f, resetTime_q = None\<rparr>,
           modelOrAlias = Some \<lparr>model = Some n, alias_m = None\<rparr>,
           label_m = Some n\<rparr>"

definition sample_status :: StatusData where
  "sample_status =
     WithEnvelope
       \<lparr>planStatus = None,
        cascadeModelConfigData =
          Some \<lparr>clientModelConfigs =
                  Some [sample_entry ''A'' (Some 0), sample_entry ''B'' (Some (1/2)),
                        Some \<lparr>quotaInfo = None, modelOrAlias = None, label_m = None\<rparr>,
                        sample_entry ''C'' None,
                        sample_entry ''D'' (Some (45/1000)),
                        sample_entry ''E'' (Some (145/1000))]\<rparr>,
        name_u = None, email_u = None, userTier = None\<rparr>"

definition two_servers :: World where
  "two_servers =
     \<lparr>processScan = Inr (Some \<lparr>pid = 4242, extensionPort = 0, csrfToken = ''abc123''\<rparr>),
      portAccepts = (\<lambda>p. p = 8090 \<or> p = 8091),
      handshakeReply = (\<lambda>p token. HttpResponse 200 None),
      statusReply = (\<lambda>p token. NetTimeout),
      dateParse = (\<lambda>s. None)\<rparr>"

definition idle_fetcher :: QuotaFetcher where
  "idle_fetcher = \<lparr>connection = None, processName = ''language_server_linux'', isWindows = False\<rparr>"

definition serving_world :: World where
  "serving_world =
     \<lparr>processScan = Inr (Some \<lparr>pid = 4242, extensionPort = 0, csrfToken = ''abc123''\<rparr>),
      portAccepts = (\<lambda>p. p = 8095),
      handshakeReply = (\<lambda>p token. if p = 8095 \<and> token = ''abc123'' then HttpResponse 200 None else NetError),
      statusReply = (\<lambda>p token. if p = 8095 \<and> token = ''abc123''
                                 then HttpResponse 200 (Some sample_status) else NetError),
      dateParse = (\<lambda>s. None)\<rparr>"

definition cached_fetcher :: QuotaFetcher where
  "cached_fetcher =
     \<lparr>connection = Some \<lparr>port = 8095, csrfToken_c = ''abc123''\<rparr>,
      processName = ''language_server_linux'', isWindows = False\<rparr>"

text \<open>A store that holds data of an earlier successful poll, with one subscriber.\<close>

definition loaded_store :: QuotaStore where
  "loaded_store =
     \<lparr>state = \<lparr>models_s = fst (fst first_poll),
                promptCredits_s = Some \<lparr>available = 500, monthly = 1000\<rparr>,
                flowCredits_s = None,
                health = snd (fst first_poll),
                sessionStart = 0, lastUpdate = 5000, isLoading = True, error = None\<rparr>,
      subscribers = [1]\<rparr>"

section \<open>Verified properties\<close>

subsection \<open>Burn rate\<close>

text \<open>
  What the code computes: the rate is taken between the first and the last entry of the
  in-memory history; it is 0 when that history has fewer than two entries, when the model
  is missing from either of the two, or when the time between them is not positive, and
  it is never negative.
\<close>

lemma calculateBurnRate_in_memory:
  "calculateBurnRate eng mid =
     (if length (history eng) < 2
         \<or> models (hd (history eng)) mid = None
         \<or> models (last (history eng)) mid = None
         \<or> timestamp (last (history eng)) - timestamp (hd (history eng)) \<le> 0
      then 0
      else max 0 ((the (models (hd (history eng)) mid) - the (models (last (history eng)) mid))
                  / (real_of_int (timestamp (last (history eng)) - timestamp (hd (history eng)))
                     / 3600000)))
   \<and> 0 \<le> calculateBurnRate eng mid"
proof (cases "length (history eng) < 2")
  case True
  then show ?thesis by (simp add: calculateBurnRate_def)
next
  case False
  then have ne: "history eng \<noteq> []" by auto
  have h0: "history eng ! 0 = hd (history eng)"
    using ne by (simp add: hd_conv_nth)
  have hl: "history eng ! (length (history eng) - Suc 0) = last (history eng)"
    using ne by (simp add: last_conv_nth)
  show ?thesis
    using False
    by (auto simp: calculateBurnRate_def h0 hl Let_def split: option.splits)
qed

lemma stale_poll_models:
  "map (\<lambda>e. (modelId e, burnRate (insights e))) (fst (fst stale_poll)) = [(''A'', 5 / 24)]"
  by code_simp

lemma stale_poll_history:
  "map timestamp (history (snd stale_poll)) = [0, 864000000]"
  by code_simp

lemma stale_poll_stored:
  "map timestamp (memento_get (globalState (snd stale_poll)) STORAGE_KEY []) = [864000000]"
  by code_simp

text \<open>
  C1. The burn rate is to be computed from the oldest and the newest retained history
  point, and to be 0 when fewer than two points are retained. The engine prunes only the
  copy of the history that it persists, never the history it holds in memory, so the rate
  is taken over points that retention has dropped: after a poll at time 0 and the next
  poll ten days later, the in-memory history has both entries while one entry is
  retained in the store, and the rate of A is (100 - 50) / 240 = 5/24 where one retained
  point asks for 0.
\<close>

theorem stale_history_burn_rate:
  "map (\<lambda>e. (modelId e, burnRate (insights e))) (fst (fst stale_poll)) = [(''A'', 5 / 24)]
   \<and> map timestamp (history (snd stale_poll)) = [0, 864000000]
   \<and> map timestamp (memento_get (globalState (snd stale_poll)) STORAGE_KEY []) = [864000000]
   \<and> calculateBurnRate (snd stale_poll) ''A'' \<noteq> 0"
proof -
  have "calculateBurnRate (snd stale_poll) ''A'' = 5 / 24"
    by code_simp
  then show ?thesis
    using stale_poll_models stale_poll_history stale_poll_stored by simp
qed

text \<open>
  C8, as stated: with two entries one hour apart and model A falling from 100 to 80, the
  burn rate is 20 and the label is "Moderate". The label half fails: 20 is above the
  bound 15 of "Fast".
\<close>

theorem burn_rate_label_counterexample:
  "\<not> (calculateBurnRate two_points ''A'' = 20
       \<and> getBurnRateLabel (calculateBurnRate two_points ''A'') = ''Moderate'')"
  by (simp add: two_points_def calculateBurnRate_def getBurnRateLabel_def)

text \<open>
  C8, amended: with a history of exactly two entries one hour apart in which model A
  falls from 100 to 80, the burn rate of A is exactly 20 percent per hour and its label
  is "Very Fast".
\<close>

theorem burn_rate_one_hour:
  assumes "history eng = [\<lparr>timestamp = t0, models = m0\<rparr>, \<lparr>timestamp = t0 + 3600000, models = m1\<rparr>]"
    and "m0 a = Some 100" and "m1 a = Some 80"
  shows "calculateBurnRate eng a = 20
         \<and> getBurnRateLabel (calculateBurnRate eng a) = ''Very Fast''"
  using assms by (simp add: calculateBurnRate_def getBurnRateLabel_def)

theorem burn_rate_one_hour_witness:
  "calculateBurnRate two_points ''A'' = 20
   \<and> getBurnRateLabel (calculateBurnRate two_points ''A'') = ''Very Fast''"
proof -
  have h: "history two_points =
             [\<lparr>timestamp = 1000, models = [''A'' \<mapsto> 100]\<rparr>,
              \<lparr>timestamp = 1000 + 3600000, models = [''A'' \<mapsto> 80]\<rparr>]"
    by (simp add: two_points_def)
  show ?thesis
    by (rule burn_rate_one_hour [OF h]) simp_all
qed

subsection \<open>Helper lemmas on the analysis pipeline\<close>

lemma length_slice_last: "length (slice_last n xs) = min (length xs) n"
  by (simp add: slice_last_def)

lemma nth_slice_last:
  "i < length (slice_last n xs) \<Longrightarrow> slice_last n xs ! i = xs ! (length xs - min (length xs) n + i)"
  by (auto simp: slice_last_def min_def)

lemma set_insert_sorted: "set (insert_sorted cmp x xs) = insert x (set xs)"
  by (induction xs) auto

lemma mset_insert_sorted: "mset (insert_sorted cmp x xs) = add_mset x (mset xs)"
  by (induction xs) auto

lemma mset_array_sort: "mset (array_sort cmp xs) = mset xs"
  by (induction xs) (simp_all add: array_sort_def mset_insert_sorted)

lemma set_array_sort: "set (array_sort cmp xs) = set xs"
  using mset_array_sort [of cmp xs] by (metis set_mset_mset)

lemma history_saveHistory: "history (saveHistory now eng) = history eng"
  by (simp add: saveHistory_def Let_def)

lemma history_recordHistory:
  "history (recordHistory now ms eng) =
     history eng @ [\<lparr>timestamp = now, models = snapshot_models ms Map.empty\<rparr>]"
  by (simp add: recordHistory_def Let_def history_saveHistory)

lemma history_initSessionTracking: "history (initSessionTracking ms eng) = history eng"
  by (induction ms arbitrary: eng) auto

lemma history_analyzeModel: "history (snd (analyzeModel now eng m allModels pinned)) = history eng"
  by (simp add: analyzeModel_def Let_def)

lemma historyData_analyzeModel:
  "historyData (insights (fst (analyzeModel now eng m allModels pinned))) = getHistoryData eng (modelId m)"
  by (simp add: analyzeModel_def Let_def)

lemma modelId_analyzeModel:
  "modelId (fst (analyzeModel now eng m allModels pinned)) = modelId m"
  by (simp add: analyzeModel_def Let_def)

lemma getHistoryData_history:
  "history eng1 = history eng2 \<Longrightarrow> getHistoryData eng1 mid = getHistoryData eng2 mid"
  by (simp add: getHistoryData_def)

lemma analyzeModels_Cons:
  "analyzeModels now eng (m # ms) allModels pinned =
     (fst (analyzeModel now eng m allModels pinned)
        # fst (analyzeModels now (snd (analyzeModel now eng m allModels pinned)) ms allModels pinned),
      snd (analyzeModels now (snd (analyzeModel now eng m allModels pinned)) ms allModels pinned))"
  by (simp add: Let_def split: prod.splits)

lemma history_analyzeModels:
  "history (snd (analyzeModels now eng ms allModels pinned)) = history eng"
proof (induction ms arbitrary: eng)
  case Nil
  show ?case by simp
next
  case (Cons m ms)
  have "history (snd (analyzeModels now (snd (analyzeModel now eng m allModels pinned)) ms allModels pinned))
          = history (snd (analyzeModel now eng m allModels pinned))"
    by (rule Cons.IH)
  then show ?case
    by (simp only: analyzeModels_Cons snd_conv history_analyzeModel)
qed

lemma analyzeModels_historyData:
  "e \<in> set (fst (analyzeModels now eng ms allModels pinned)) \<Longrightarrow>
     historyData (insights e) = getHistoryData eng (modelId e)"
proof (induction ms arbitrary: eng)
  case Nil
  then show ?case by simp
next
  case (Cons m ms)
  let ?eng1 = "snd (analyzeModel now eng m allModels pinned)"
  let ?e1 = "fst (analyzeModel now eng m allModels pinned)"
  from Cons.prems have "e = ?e1 \<or> e \<in> set (fst (analyzeModels now ?eng1 ms allModels pinned))"
    by (simp only: analyzeModels_Cons fst_conv set_simps insert_iff)
  then show ?case
  proof
    assume "e = ?e1"
    then show ?thesis
      by (simp add: historyData_analyzeModel modelId_analyzeModel)
  next
    assume "e \<in> set (fst (analyzeModels now ?eng1 ms allModels pinned))"
    then have "historyData (insights e) = getHistoryData ?eng1 (modelId e)"
      by (rule Cons.IH)
    also have "\<dots> = getHistoryData eng (modelId e)"
      by (rule getHistoryData_history) (rule history_analyzeModel)
    finally show ?thesis .
  qed
qed

lemma modelId_analyzeModels:
  "map modelId (fst (analyzeModels now eng ms allModels pinned)) = map modelId ms"
proof (induction ms arbitrary: eng)
  case Nil
  show ?case by simp
next
  case (Cons m ms)
  show ?case
    by (simp only: analyzeModels_Cons fst_conv list.map modelId_analyzeModel Cons.IH)
qed

text \<open>The first poll of the concrete inputs, evaluated.\<close>

lemma first_poll_models:
  "map (\<lambda>e. (modelId e, isPinned (insights e), isActive (insights e), remainingPercent e,
              historyData (insights e)))
     (fst (fst first_poll))
   = [(''B'', True, False, 90, [90]), (''A'', False, True, 60, [60])]"
  by code_simp

lemma first_poll_unfold:
  "analyze 5000 [model_A, model_B] pin_beta fresh_engine
     = ((fst (fst first_poll), snd (fst first_poll)), snd first_poll)"
  by (simp add: first_poll_def)

lemma first_poll_hd:
  "hd (fst (fst first_poll)) \<in> set (fst (fst first_poll))
   \<and> historyData (insights (hd (fst (fst first_poll)))) = [90]"
  using first_poll_models by (cases "fst (fst first_poll)") auto

subsection \<open>Sparkline data\<close>

text \<open>
  C9. Every model in the result of \<open>analyze\<close> has as its sparkline data the values of the
  last 20 entries of the in-memory history (which now ends with the snapshot just
  recorded): its length is the smaller of the number of history entries and 20, and an
  entry that lacks the model contributes 100.
\<close>

theorem analyze_historyData:
  assumes "analyze now ms config eng = ((out, h), eng')"
    and "e \<in> set out"
  shows "history eng' = history eng @ [\<lparr>timestamp = now, models = snapshot_models ms Map.empty\<rparr>]
         \<and> length (historyData (insights e)) = min (length (history eng')) 20
         \<and> (\<forall>i < length (historyData (insights e)).
               historyData (insights e) ! i =
                 (case models (history eng' ! (length (history eng') - length (historyData (insights e)) + i))
                         (modelId e) of
                    None \<Rightarrow> 100
                  | Some v \<Rightarrow> v))"
proof -
  let ?eng2 = "initSessionTracking ms (recordHistory now ms eng)"
  let ?res = "analyzeModels now ?eng2 ms ms (pinnedModels config)"
  from assms(1) have out: "out = array_sort comparePriority (fst ?res)" and eng': "eng' = snd ?res"
    by (auto simp: analyze_def Let_def split: prod.splits)
  have h2: "history ?eng2 = history eng @ [\<lparr>timestamp = now, models = snapshot_models ms Map.empty\<rparr>]"
    by (simp add: history_initSessionTracking history_recordHistory)
  have h': "history eng' = history ?eng2"
    by (simp add: eng' history_analyzeModels)
  from assms(2) have "e \<in> set (fst ?res)"
    by (simp add: out set_array_sort)
  then have "historyData (insights e) = getHistoryData ?eng2 (modelId e)"
    by (rule analyzeModels_historyData)
  also have "\<dots> = getHistoryData eng' (modelId e)"
    by (rule getHistoryData_history) (simp add: h')
  finally have hd: "historyData (insights e) = getHistoryData eng' (modelId e)" .
  have len: "length (getHistoryData eng' (modelId e)) = min (length (history eng')) 20"
    by (simp add: getHistoryData_def length_slice_last)
  have nth: "getHistoryData eng' (modelId e) ! i =
               (case models (history eng' ! (length (history eng') - length (getHistoryData eng' (modelId e)) + i))
                       (modelId e) of None \<Rightarrow> 100 | Some v \<Rightarrow> v)"
    if "i < length (getHistoryData eng' (modelId e))" for i
  proof -
    from that have i: "i < length (slice_last 20 (history eng'))"
      by (simp add: getHistoryData_def)
    show ?thesis
      using i by (simp add: getHistoryData_def nth_slice_last length_slice_last)
  qed
  show ?thesis
    using h' h2 len nth by (simp add: hd)
qed

theorem analyze_historyData_witness:
  "length (historyData (insights (hd (fst (fst first_poll)))))
     = min (length (history (snd first_poll))) 20
   \<and> historyData (insights (hd (fst (fst first_poll)))) = [90]"
proof -
  from first_poll_hd have e: "hd (fst (fst first_poll)) \<in> set (fst (fst first_poll))"
    by simp
  from analyze_historyData [OF first_poll_unfold e] first_poll_hd show ?thesis
    by blast
qed

subsection \<open>Ordering of the result\<close>

lemma comparePriority_le: "comparePriority a b \<le> 0 \<longleftrightarrow> priority_le a b"
  by (auto simp: comparePriority_def priority_le_def)

lemma priority_le_total: "priority_le a b \<or> priority_le b a"
  by (auto simp: priority_le_def)

lemma priority_le_trans: "priority_le a b \<Longrightarrow> priority_le b c \<Longrightarrow> priority_le a c"
  by (auto simp: priority_le_def)

lemma sorted_insert_sorted:
  "sorted_wrt priority_le xs \<Longrightarrow> sorted_wrt priority_le (insert_sorted comparePriority x xs)"
proof (induction xs)
  case Nil
  show ?case by simp
next
  case (Cons y ys)
  show ?case
  proof (cases "comparePriority x y \<le> 0")
    case True
    then have xy: "priority_le x y" by (simp add: comparePriority_le)
    have "\<forall>z \<in> set ys. priority_le x z"
      using Cons.prems xy priority_le_trans by auto
    with True xy Cons.prems show ?thesis by simp
  next
    case False
    then have "priority_le y x"
      using priority_le_total [of x y] by (simp add: comparePriority_le)
    with False Cons show ?thesis
      by (auto simp: set_insert_sorted)
  qed
qed

lemma sorted_array_sort: "sorted_wrt priority_le (array_sort comparePriority xs)"
  by (induction xs) (simp_all add: array_sort_def sorted_insert_sorted)

text \<open>
  C7. The result of \<open>analyze\<close> is ordered by pinned first, then active first, then
  ascending remaining percentage, and holds the models handed in; so a pinned model
  stands before every model that is not pinned.
\<close>

theorem analyze_sorted:
  assumes "analyze now ms config eng = ((out, h), eng')"
  shows "sorted_wrt priority_le out
         \<and> mset (map modelId out) = mset (map modelId ms)
         \<and> (\<forall>i j. i < length out \<and> j < length out
                \<and> isPinned (insights (out ! i)) \<and> \<not> isPinned (insights (out ! j)) \<longrightarrow> i < j)"
proof -
  let ?res = "analyzeModels now (initSessionTracking ms (recordHistory now ms eng)) ms ms (pinnedModels config)"
  from assms have out: "out = array_sort comparePriority (fst ?res)"
    by (auto simp: analyze_def Let_def split: prod.splits)
  have s: "sorted_wrt priority_le out"
    by (simp only: out sorted_array_sort)
  have "mset out = mset (fst ?res)"
    by (simp only: out mset_array_sort)
  then have "mset (map modelId out) = mset (map modelId (fst ?res))"
    by simp
  then have p: "mset (map modelId out) = mset (map modelId ms)"
    by (simp only: modelId_analyzeModels)
  have f: "i < j" if "i < length out" "j < length out"
    "isPinned (insights (out ! i))" "\<not> isPinned (insights (out ! j))" for i j
  proof (rule ccontr)
    assume "\<not> i < j"
    with that have "j < i" by (cases "i = j") auto
    with s that(1) have "priority_le (out ! j) (out ! i)"
      by (simp add: sorted_wrt_iff_nth_less)
    with that show False by (simp add: priority_le_def)
  qed
  show ?thesis using s p f by blast
qed

theorem analyze_sorted_witness:
  "sorted_wrt priority_le (fst (fst first_poll))
   \<and> map (\<lambda>e. (modelId e, isPinned (insights e), isActive (insights e), remainingPercent e,
                historyData (insights e)))
        (fst (fst first_poll))
      = [(''B'', True, False, 90, [90]), (''A'', False, True, 60, [60])]"
  using analyze_sorted [OF first_poll_unfold] first_poll_models by blast

subsection \<open>Active model\<close>

lemma math_max_Max: "math_max xs = (if xs = [] then None else Some (Max (set xs)))"
proof (induction xs)
  case Nil
  show ?case by simp
next
  case (Cons x xs)
  show ?case
  proof (cases "xs = []")
    case True
    then show ?thesis by simp
  next
    case False
    then have "Max (insert x (set xs)) = max x (Max (set xs))"
      by simp
    with False Cons show ?thesis by simp
  qed
qed

lemma math_min_Min: "math_min xs = (if xs = [] then None else Some (Min (set xs)))"
proof (induction xs)
  case Nil
  show ?case by simp
next
  case (Cons x xs)
  show ?case
  proof (cases "xs = []")
    case True
    then show ?thesis by simp
  next
    case False
    then have "Min (insert x (set xs)) = min x (Min (set xs))"
      by simp
    with False Cons show ?thesis by simp
  qed
qed

lemma highestBurnRate_iff: "highestBurnRate eng m allModels \<longleftrightarrow> active_by_burn_rate eng m allModels"
proof (cases "length (history eng) \<ge> 2 \<and> allModels \<noteq> []")
  case False
  then consider "\<not> length (history eng) \<ge> 2" | "allModels = []"
    by auto
  then show ?thesis
    by cases (simp_all add: highestBurnRate_def active_by_burn_rate_def)
next
  case True
  let ?rates = "map (\<lambda>m. (modelId m, calculateBurnRate eng (modelId m))) allModels"
  let ?mx = "top_burn_rate eng allModels"
  have mm: "math_max (map snd ?rates) = Some ?mx"
    using True by (simp add: math_max_Max top_burn_rate_def comp_def)
  have fnd: "(case find (\<lambda>b. snd b = ?mx) ?rates of None \<Rightarrow> False | Some b \<Rightarrow> fst b = modelId m)
              \<longleftrightarrow> (\<exists>i < length allModels.
                     calculateBurnRate eng (modelId (allModels ! i)) = ?mx
                     \<and> (\<forall>j < i. calculateBurnRate eng (modelId (allModels ! j)) \<noteq> ?mx)
                     \<and> modelId (allModels ! i) = modelId m)"
  proof (cases "find (\<lambda>b. snd b = ?mx) ?rates")
    case None
    then have "\<forall>i < length allModels. calculateBurnRate eng (modelId (allModels ! i)) \<noteq> ?mx"
      by (auto simp: find_None_iff)
    with None show ?thesis by auto
  next
    case (Some b)
    then obtain i where i: "i < length allModels"
      "calculateBurnRate eng (modelId (allModels ! i)) = ?mx"
      "b = (modelId (allModels ! i), calculateBurnRate eng (modelId (allModels ! i)))"
      "\<forall>j < i. calculateBurnRate eng (modelId (allModels ! j)) \<noteq> ?mx"
      by (auto simp: find_Some_iff)
    have uniq: "i' = i" if "i' < length allModels"
      "calculateBurnRate eng (modelId (allModels ! i')) = ?mx"
      "\<forall>j < i'. calculateBurnRate eng (modelId (allModels ! j)) \<noteq> ?mx" for i'
    proof (rule ccontr)
      assume "i' \<noteq> i"
      then consider "i' < i" | "i < i'" by linarith
      then show False
      proof cases
        case 1
        with i(4) that(2) show False by blast
      next
        case 2
        with that(3) i(2) show False by blast
      qed
    qed
    have lhs: "(case find (\<lambda>b. snd b = ?mx) ?rates of None \<Rightarrow> False | Some b \<Rightarrow> fst b = modelId m)
                 \<longleftrightarrow> modelId (allModels ! i) = modelId m"
      by (simp add: Some i(3))
    have rhs: "(\<exists>i < length allModels.
                     calculateBurnRate eng (modelId (allModels ! i)) = ?mx
                     \<and> (\<forall>j < i. calculateBurnRate eng (modelId (allModels ! j)) \<noteq> ?mx)
                     \<and> modelId (allModels ! i) = modelId m)
                 \<longleftrightarrow> modelId (allModels ! i) = modelId m"
    proof
      assume "\<exists>i < length allModels.
                     calculateBurnRate eng (modelId (allModels ! i)) = ?mx
                     \<and> (\<forall>j < i. calculateBurnRate eng (modelId (allModels ! j)) \<noteq> ?mx)
                     \<and> modelId (allModels ! i) = modelId m"
      then obtain i' where i': "i' < length allModels"
        "calculateBurnRate eng (modelId (allModels ! i')) = ?mx"
        "\<forall>j < i'. calculateBurnRate eng (modelId (allModels ! j)) \<noteq> ?mx"
        "modelId (allModels ! i') = modelId m"
        by blast
      from uniq [OF i'(1) i'(2) i'(3)] i'(4) show "modelId (allModels ! i) = modelId m"
        by simp
    next
      assume "modelId (allModels ! i) = modelId m"
      with i(1) i(2) i(4) show "\<exists>i < length allModels.
                     calculateBurnRate eng (modelId (allModels ! i)) = ?mx
                     \<and> (\<forall>j < i. calculateBurnRate eng (modelId (allModels ! j)) \<noteq> ?mx)
                     \<and> modelId (allModels ! i) = modelId m"
        by blast
    qed
    show ?thesis
      by (simp only: lhs rhs)
  qed
  show ?thesis
    using True mm fnd
    by (simp add: highestBurnRate_def active_by_burn_rate_def Let_def)
qed

lemma lowestRemaining_iff: "lowestRemaining m allModels \<longleftrightarrow> active_by_lowest m allModels"
  by (auto simp: lowestRemaining_def active_by_lowest_def math_min_Min)

text \<open>
  How the code decides one model: it is active exactly when it is the first model that
  attains the largest burn rate, which exceeds 0.5, with at least two history points, or
  its id is the id last found active, or its remaining percentage is the least of all
  models and below 90; a model found active becomes the id last found active. The tests
  of different models do not exclude each other.
\<close>

lemma analyzeModel_active:
  "isActive (insights (fst (analyzeModel now eng m allModels pinned)))
     = (active_by_burn_rate eng m allModels
        \<or> lastActiveModelId eng = Some (modelId m)
        \<or> active_by_lowest m allModels)
   \<and> lastActiveModelId (snd (analyzeModel now eng m allModels pinned))
       = (if isActive (insights (fst (analyzeModel now eng m allModels pinned)))
          then Some (modelId m) else lastActiveModelId eng)"
  by (simp add: analyzeModel_def Let_def detectActiveModel_def
      highestBurnRate_iff lowestRemaining_iff)

text \<open>
  C4. The priority rules are to select one active model at most, the first rule that
  matches deciding. The code tests every model by itself and lets it fall through all
  three tests: in the second poll A burns 20 percent per hour and is active by the first
  test, and B, which burns nothing and was not active before, is active by the third,
  having the lowest remaining percentage 60. The result has two active models.
\<close>

theorem second_poll_two_active:
  "map (\<lambda>e. (modelId e, isActive (insights e), burnRate (insights e), remainingPercent e))
     (fst (fst second_poll))
     = [(''B'', True, 0, 60), (''A'', True, 20, 80)]
   \<and> \<not> length (filter (\<lambda>e. isActive (insights e)) (fst (fst second_poll))) \<le> 1"
  by code_simp

subsection \<open>History persistence\<close>

lemma newer_than_fun: "(\<lambda>e. now - 86400000 < timestamp e) = newer_than now"
  by (simp add: newer_than_def fun_eq_iff)

lemma stored_saveHistory:
  "memento_get (globalState (saveHistory now eng)) STORAGE_KEY []
     = slice_last 200 (filter (newer_than now) (history eng))"
  by (simp add: saveHistory_def memento_get_def memento_update_def Let_def
      MAX_HISTORY_HOURS_def MAX_HISTORY_POINTS_def newer_than_fun)

lemma history_new_InsightsEngine:
  "history (new_InsightsEngine now g) = filter (newer_than now) (memento_get g STORAGE_KEY [])"
  by (simp add: new_InsightsEngine_def loadHistory_def Let_def MAX_HISTORY_HOURS_def newer_than_fun)

lemma suffix_slice_last: "suffix (slice_last n xs) xs"
  by (simp add: slice_last_def suffix_drop)

lemma newer_than_mono: "now' \<le> now \<Longrightarrow> newer_than now e \<Longrightarrow> newer_than now' e"
  by (simp add: newer_than_def)

text \<open>
  C6. A save at time \<open>now\<close> stores only entries of the history that are newer than the
  24-hour cutoff, namely the last 200 of them at most, in their order; an engine built
  over the saved store at time \<open>now'\<close> has as its history the stored entries that are
  newer than its own cutoff, unchanged, and all of them when no time has passed.
\<close>

theorem history_roundtrip:
  "(let kept = filter (newer_than now) (history eng);
        stored = memento_get (globalState (saveHistory now eng)) STORAGE_KEY [];
        reloaded = history (new_InsightsEngine now' (globalState (saveHistory now eng)))
    in (\<forall>e \<in> set stored. e \<in> set (history eng) \<and> newer_than now e)
       \<and> suffix stored kept
       \<and> length stored = min (length kept) 200
       \<and> reloaded = filter (newer_than now') stored
       \<and> (now' \<le> now \<longrightarrow> reloaded = stored))"
proof -
  let ?kept = "filter (newer_than now) (history eng)"
  let ?stored = "memento_get (globalState (saveHistory now eng)) STORAGE_KEY []"
  let ?reloaded = "history (new_InsightsEngine now' (globalState (saveHistory now eng)))"
  have st: "?stored = slice_last 200 ?kept"
    by (rule stored_saveHistory)
  have suf: "suffix ?stored ?kept"
    by (simp only: st suffix_slice_last)
  then have sub: "set ?stored \<subseteq> set ?kept"
    by (rule set_mono_suffix)
  have a: "\<forall>e \<in> set ?stored. e \<in> set (history eng) \<and> newer_than now e"
    using sub by auto
  have len: "length ?stored = min (length ?kept) 200"
    by (simp only: st length_slice_last)
  have re: "?reloaded = filter (newer_than now') ?stored"
    by (rule history_new_InsightsEngine)
  have same: "?reloaded = ?stored" if "now' \<le> now"
  proof -
    have "\<forall>e \<in> set ?stored. newer_than now' e"
      using a newer_than_mono [OF that] by blast
    then show ?thesis
      by (simp only: re filter_True)
  qed
  show ?thesis
    unfolding Let_def using a suf len re same by blast
qed

theorem history_roundtrip_witness:
  "history (new_InsightsEngine 90000002 (globalState (saveHistory 90000002 three_entries)))
     = memento_get (globalState (saveHistory 90000002 three_entries)) STORAGE_KEY []
   \<and> map timestamp (memento_get (globalState (saveHistory 90000002 three_entries)) STORAGE_KEY [])
       = [90000000, 90000001]"
proof -
  have "map timestamp (memento_get (globalState (saveHistory 90000002 three_entries)) STORAGE_KEY [])
          = [90000000, 90000001]"
    by (simp add: saveHistory_def memento_get_def memento_update_def Let_def slice_last_def
        MAX_HISTORY_HOURS_def MAX_HISTORY_POINTS_def three_entries_def)
  with history_roundtrip [of 90000002 three_entries 90000002] show ?thesis
    by (simp add: Let_def)
qed

subsection \<open>Parsing of the status response\<close>

lemma exp_up_le: "x < 2 ^ Suc m \<Longrightarrow> k \<le> m \<Longrightarrow> exp_up x k \<le> m"
proof (induction x k rule: exp_up.induct)
  case (1 x k)
  show ?case
  proof (cases "1024 \<le> k \<or> x < 2 ^ Suc k")
    case True
    then have "exp_up x k = k" by simp
    with "1.prems" show ?thesis by simp
  next
    case False
    then have step: "exp_up x k = exp_up x (Suc k)" by simp
    from False have "(2::real) ^ Suc k \<le> x" by simp
    with "1.prems"(1) have "(2::real) ^ Suc k < 2 ^ Suc m" by linarith
    then have "Suc k < Suc m" by simp
    then have "Suc k \<le> m" by simp
    with "1.IH" [OF False "1.prems"(1)] step show ?thesis by simp
  qed
qed

lemma exponent64_le: "x < 2 ^ 53 \<Longrightarrow> exponent64 x \<le> 52"
proof (cases "1 \<le> x")
  case True
  assume "x < 2 ^ 53"
  then have "x < 2 ^ Suc 52" by simp
  then have "exp_up x 0 \<le> 52" by (rule exp_up_le) simp
  with True show ?thesis by (simp add: exponent64_def)
next
  case False
  then show ?thesis by (simp add: exponent64_def)
qed

lemma round_half_even_le: "r \<le> real_of_int z \<Longrightarrow> round_half_even r \<le> z"
proof -
  assume a: "r \<le> real_of_int z"
  then have fl: "\<lfloor>r\<rfloor> \<le> z" by (simp add: floor_le_iff)
  show ?thesis
  proof (cases "\<lfloor>r\<rfloor> = z")
    case True
    with a have "r = real_of_int \<lfloor>r\<rfloor>"
      using of_int_floor_le [of r] by linarith
    then have "r - real_of_int \<lfloor>r\<rfloor> = 0" by simp
    with True show ?thesis by (simp add: round_half_even_def Let_def)
  next
    case False
    with fl have "\<lfloor>r\<rfloor> + 1 \<le> z" by simp
    then show ?thesis by (simp add: round_half_even_def Let_def)
  qed
qed

lemma round_half_even_ge: "real_of_int z \<le> r \<Longrightarrow> z \<le> round_half_even r"
proof -
  assume "real_of_int z \<le> r"
  then have "z \<le> \<lfloor>r\<rfloor>" by (simp add: le_floor_iff)
  then show ?thesis by (simp add: round_half_even_def Let_def)
qed

lemma round64_between:
  assumes "0 < x" and "x < 2 ^ 53" and "real_of_int a \<le> x" and "x \<le> real_of_int b"
  shows "real_of_int a \<le> round64 x \<and> round64 x \<le> real_of_int b"
proof -
  define n where "n = nat (52 - exponent64 x)"
  from assms(2) have e: "exponent64 x \<le> 52"
    by (rule exponent64_le)
  then have up: "scale2 y (52 - exponent64 x) = y * 2 ^ n" for y
    by (simp add: scale2_def n_def)
  from e have down: "scale2 y (exponent64 x - 52) = y / 2 ^ n" for y
    by (cases "exponent64 x = 52") (simp_all add: scale2_def n_def)
  define m where "m = round_half_even (x * 2 ^ n)"
  have r: "round64 x = real_of_int m / 2 ^ n"
    using assms(1) by (simp add: round64_def Let_def up down m_def)
  have "real_of_int (a * 2 ^ n) \<le> x * 2 ^ n"
    using assms(3) by simp
  then have "a * 2 ^ n \<le> m"
    unfolding m_def by (rule round_half_even_ge)
  then have "real_of_int (a * 2 ^ n) \<le> real_of_int m"
    by (simp only: of_int_le_iff)
  then have lo: "real_of_int a \<le> real_of_int m / 2 ^ n"
    by (simp add: pos_le_divide_eq)
  have "x * 2 ^ n \<le> real_of_int (b * 2 ^ n)"
    using assms(4) by simp
  then have "m \<le> b * 2 ^ n"
    unfolding m_def by (rule round_half_even_le)
  then have "real_of_int m \<le> real_of_int (b * 2 ^ n)"
    by (simp only: of_int_le_iff)
  then have hi: "real_of_int m / 2 ^ n \<le> real_of_int b"
    by (simp add: pos_divide_le_eq)
  show ?thesis using r lo hi by simp
qed

lemma round64_unit: "0 \<le> x \<Longrightarrow> x \<le> 1 \<Longrightarrow> 0 \<le> round64 x \<and> round64 x \<le> 1"
proof (cases "x = 0")
  case True
  then show ?thesis by (simp add: round64_def)
next
  case False
  assume "0 \<le> x" "x \<le> 1"
  with False have "0 < x" "x < 2 ^ 53" "real_of_int 0 \<le> x" "x \<le> real_of_int 1"
    by simp_all
  from round64_between [OF this] show ?thesis by simp
qed

lemma times64_percent:
  assumes "0 \<le> f" and "f \<le> 1"
  shows "0 \<le> times64 f 100 \<and> times64 f 100 \<le> 100"
proof (cases "f = 0")
  case True
  then show ?thesis by (simp add: times64_def round64_def)
next
  case False
  with assms have "0 < f * 100" "f * 100 < 2 ^ 53" "real_of_int 0 \<le> f * 100"
    "f * 100 \<le> real_of_int 100"
    by simp_all
  from round64_between [OF this] show ?thesis by (simp add: times64_def)
qed

lemma times64_full: "times64 1 100 = 100"
proof -
  have "(0::real) < 1 * 100" "(1::real) * 100 < 2 ^ 53" "real_of_int 100 \<le> 1 * 100"
    "(1::real) * 100 \<le> real_of_int 100"
    by simp_all
  from round64_between [OF this] show ?thesis by (simp add: times64_def)
qed

lemma parseModel_percent: "percent_of_fraction q (parseModel now w m q)"
proof (cases "remainingFraction q")
  case None
  then show ?thesis
    by (simp add: percent_of_fraction_def parseModel_def Let_def times64_full)
next
  case (Some v)
  have range: "0 \<le> round (times64 (round64 v) 100) \<and> round (times64 (round64 v) 100) \<le> 100"
    if "0 \<le> round64 v \<and> round64 v \<le> 1"
  proof -
    from that have b: "0 \<le> times64 (round64 v) 100 \<and> times64 (round64 v) 100 \<le> 100"
      by (simp add: times64_percent)
    then have "round (0::real) \<le> round (times64 (round64 v) 100)"
      by (intro round_mono) simp
    moreover from b have "round (times64 (round64 v) 100) \<le> round (100::real)"
      by (intro round_mono) simp
    ultimately show ?thesis by simp
  qed
  have unit: "0 \<le> round64 v \<and> round64 v \<le> 1" if "0 \<le> v \<and> v \<le> 1"
    using that by (simp add: round64_unit)
  show ?thesis
    using Some range unit
    by (simp add: percent_of_fraction_def parseModel_def Let_def)
qed

lemma parseModels_percent:
  "parseModels now w raws = Inr ms \<Longrightarrow>
     list_all2 (\<lambda>mq x. percent_of_fraction (snd mq) x) (quota_entries raws) ms"
proof (induction raws arbitrary: ms)
  case Nil
  then show ?case by (simp add: quota_entries_def)
next
  case (Cons entry raws)
  show ?case
  proof (cases entry)
    case None
    with Cons.prems show ?thesis by simp
  next
    case (Some m)
    show ?thesis
    proof (cases "quotaInfo m")
      case None
      with Some Cons show ?thesis by (simp add: quota_entries_def)
    next
      case q: (Some q)
      with Some Cons.prems obtain rest where
        rest: "parseModels now w raws = Inr rest" and ms: "ms = parseModel now w m q # rest"
        by (auto split: sum.splits)
      from Cons.IH [OF rest] have "list_all2 (\<lambda>mq x. percent_of_fraction (snd mq) x) (quota_entries raws) rest" .
      then show ?thesis
        using Some q ms parseModel_percent by (simp add: quota_entries_def)
    qed
  qed
qed

text \<open>
  C2. When the status response parses, the parsed models are, in order, the entries that
  carry quota info, and each has as its percentage the product of its remaining fraction
  and 100 rounded to an integer, within 0 and 100 for a fraction within 0 and 1, and is
  exhausted exactly when the fraction equals 0.
\<close>

theorem parseResponse_percent:
  assumes "parseResponse now w d = Inr r"
  shows "\<exists>u. userStatusOf d = Some u
           \<and> list_all2 (\<lambda>mq x. percent_of_fraction (snd mq) x)
                (quota_entries (rawModelsOf u)) (models_r r)"
proof -
  from assms obtain u ms where u: "userStatusOf d = Some u"
    and ms: "parseModels now w (rawModelsOf u) = Inr ms" and r: "models_r r = ms"
    by (auto simp: parseResponse_def split: option.splits sum.splits)
  from parseModels_percent [OF ms] show ?thesis
    using u r by simp
qed

theorem parseResponse_percent_witness:
  "map (\<lambda>x. (modelId x, remainingPercent x, isExhausted x))
     (models_r (projr (parseResponse 0 sample_world sample_status)))
     = [(''A'', 0, True), (''B'', 50, False), (''C'', 100, False), (''D'', 5, False),
        (''E'', 14, False)]
   \<and> (\<exists>u. userStatusOf sample_status = Some u
           \<and> list_all2 (\<lambda>mq x. percent_of_fraction (snd mq) x)
                (quota_entries (rawModelsOf u))
                (models_r (projr (parseResponse 0 sample_world sample_status))))"
proof -
  have "\<not> isl (parseResponse 0 sample_world sample_status)"
    by code_simp
  then have ok: "parseResponse 0 sample_world sample_status
                   = Inr (projr (parseResponse 0 sample_world sample_status))"
    by simp
  have vals: "map (\<lambda>x. (modelId x, remainingPercent x, isExhausted x))
     (models_r (projr (parseResponse 0 sample_world sample_status)))
     = [(''A'', 0, True), (''B'', 50, False), (''C'', 100, False), (''D'', 5, False),
        (''E'', 14, False)]"
    by code_simp
  from parseResponse_percent [OF ok] vals show ?thesis by blast
qed

subsection \<open>Port scan\<close>

lemma checkPort_result:
  "fst (checkPort w p token) = \<lparr>port_r = p, works = validates w token p\<rparr>"
  by (simp add: checkPort_def validates_def)

lemma checkPort_events:
  "snd (checkPort w p token) = (if isPortOpen w p then [TcpProbe p, Handshake p] else [TcpProbe p])"
  by (simp add: checkPort_def)

lemma find_works_upt:
  "find works (map (\<lambda>p. \<lparr>port_r = p, works = P p\<rparr>) [a ..< b]) =
     (if \<exists>p. a \<le> p \<and> p < b \<and> P p
      then Some \<lparr>port_r = (LEAST p. a \<le> p \<and> p < b \<and> P p), works = True\<rparr>
      else None)"
proof (cases "\<exists>p. a \<le> p \<and> p < b \<and> P p")
  case False
  then show ?thesis by (auto simp: find_None_iff)
next
  case True
  let ?Q = "\<lambda>p. a \<le> p \<and> p < b \<and> P p"
  let ?l = "LEAST p. ?Q p"
  from True have l: "?Q ?l" by (rule LeastI_ex)
  have least: "\<not> ?Q q" if "q < ?l" for q
    using that by (rule not_less_Least)
  let ?xs = "map (\<lambda>p. \<lparr>port_r = p, works = P p\<rparr>) [a ..< b]"
  have "find works ?xs = Some \<lparr>port_r = ?l, works = True\<rparr>"
  proof (subst find_Some_iff, intro exI [of _ "?l - a"] conjI allI impI)
    show "?l - a < length ?xs" using l by auto
    show "works (?xs ! (?l - a))" using l by auto
    show "\<lparr>port_r = ?l, works = True\<rparr> = ?xs ! (?l - a)" using l by auto
  next
    fix j assume j: "j < ?l - a"
    then have "a + j < ?l" by linarith
    from least [OF this] j l have "\<not> P (a + j)" by auto
    moreover have "j < b - a" using j l by linarith
    ultimately show "\<not> works (?xs ! j)" by simp
  qed
  with True show ?thesis by simp
qed

lemma findApiPort_result:
  "fst (findApiPort w token) =
     (if \<exists>p. PORT_START \<le> p \<and> p \<le> PORT_END \<and> validates w token p
      then Some (LEAST p. PORT_START \<le> p \<and> p \<le> PORT_END \<and> validates w token p)
      else None)"
proof -
  have m: "map fst (map (\<lambda>p. checkPort w p token) [PORT_START ..< Suc PORT_END])
            = map (\<lambda>p. \<lparr>port_r = p, works = validates w token p\<rparr>) [PORT_START ..< Suc PORT_END]"
    by (simp add: checkPort_result)
  have "fst (findApiPort w token) =
          map_option port_r
            (find works (map fst (map (\<lambda>p. checkPort w p token) [PORT_START ..< Suc PORT_END])))"
    by (simp only: findApiPort_def Let_def fst_conv)
  also have "\<dots> = map_option port_r
            (find works (map (\<lambda>p. \<lparr>port_r = p, works = validates w token p\<rparr>)
                           [PORT_START ..< Suc PORT_END]))"
    by (simp only: m)
  finally show ?thesis
    by (simp only: find_works_upt less_Suc_eq_le) auto
qed

lemma findApiPort_handshakes:
  "Handshake p \<in> set (snd (findApiPort w token))
     \<longleftrightarrow> PORT_START \<le> p \<and> p \<le> PORT_END \<and> isPortOpen w p"
  by (auto simp: findApiPort_def Let_def checkPort_events split: if_splits)

lemma window: "[PORT_START ..< Suc PORT_END] = 8090 # 8091 # [8092 ..< 8151]"
  by (simp add: PORT_START_def PORT_END_def upt_conv_Cons)

text \<open>
  C3, as stated: the first port that validates is accepted and the remaining candidates
  are not probed. With 8090 and 8091 both open, 8090 is accepted and the handshake is
  sent to 8091 all the same.
\<close>

theorem findApiPort_probes_all_counterexample:
  "fst (findApiPort two_servers ''abc123'') = Some 8090
   \<and> Handshake 8091 \<in> set (snd (findApiPort two_servers ''abc123''))"
proof -
  have c0: "checkPort two_servers 8090 ''abc123''
              = (\<lparr>port_r = 8090, works = True\<rparr>, [TcpProbe 8090, Handshake 8090])"
    by (simp add: checkPort_def isPortOpen_def testApiEndpoint_def two_servers_def)
  have c1: "checkPort two_servers 8091 ''abc123''
              = (\<lparr>port_r = 8091, works = True\<rparr>, [TcpProbe 8091, Handshake 8091])"
    by (simp add: checkPort_def isPortOpen_def testApiEndpoint_def two_servers_def)
  have "findApiPort two_servers ''abc123'' =
          (let portChecks = map (\<lambda>p. checkPort two_servers p ''abc123'') (8090 # 8091 # [8092 ..< 8151]);
               results = map fst portChecks;
               workingPort = find works results
           in (map_option port_r workingPort, concat (map snd portChecks)))"
    by (simp only: findApiPort_def window)
  then show ?thesis
    by (simp add: Let_def c0 c1 del: upt_rec_numeral)
qed

text \<open>
  C3, amended: the handshake is sent to every port of the scan window that accepts a
  connection, and to no other port; the accepted port is the lowest port of the window
  that is open and answers the handshake with 200, and there is none exactly when no
  port of the window does.
\<close>

theorem findApiPort_lowest_valid:
  "(case fst (findApiPort w token) of
      None \<Rightarrow> \<forall>p. PORT_START \<le> p \<and> p \<le> PORT_END \<longrightarrow> \<not> validates w token p
    | Some p \<Rightarrow>
        PORT_START \<le> p \<and> p \<le> PORT_END \<and> validates w token p
        \<and> (\<forall>q. PORT_START \<le> q \<and> q < p \<longrightarrow> \<not> validates w token q))
   \<and> (\<forall>p. Handshake p \<in> set (snd (findApiPort w token))
            \<longleftrightarrow> PORT_START \<le> p \<and> p \<le> PORT_END \<and> isPortOpen w p)"
proof -
  let ?Q = "\<lambda>p. PORT_START \<le> p \<and> p \<le> PORT_END \<and> validates w token p"
  have first: "(case fst (findApiPort w token) of
      None \<Rightarrow> \<forall>p. PORT_START \<le> p \<and> p \<le> PORT_END \<longrightarrow> \<not> validates w token p
    | Some p \<Rightarrow>
        PORT_START \<le> p \<and> p \<le> PORT_END \<and> validates w token p
        \<and> (\<forall>q. PORT_START \<le> q \<and> q < p \<longrightarrow> \<not> validates w token q))"
  proof (cases "\<exists>p. ?Q p")
    case False
    then have "fst (findApiPort w token) = None"
      by (simp only: findApiPort_result if_False)
    with False show ?thesis by auto
  next
    case True
    then have l: "?Q (LEAST p. ?Q p)" by (rule LeastI_ex)
    have least: "\<not> ?Q q" if "q < (LEAST p. ?Q p)" for q
      using that by (rule not_less_Least)
    have "\<not> validates w token q" if "PORT_START \<le> q" "q < (LEAST p. ?Q p)" for q
      using least [OF that(2)] that l by auto
    moreover from True have "fst (findApiPort w token) = Some (LEAST p. ?Q p)"
      by (simp only: findApiPort_result if_True)
    ultimately show ?thesis using l by simp
  qed
  show ?thesis
    using first findApiPort_handshakes by blast
qed

lemma validates_sample: "validates sample_world ''abc123'' p \<longleftrightarrow> p = 8095"
  by (simp add: validates_def isPortOpen_def testApiEndpoint_def sample_world_def)

theorem findApiPort_lowest_valid_witness:
  "fst (findApiPort sample_world ''abc123'') = Some 8095
   \<and> Handshake 8095 \<in> set (snd (findApiPort sample_world ''abc123''))
   \<and> Handshake 8096 \<notin> set (snd (findApiPort sample_world ''abc123''))"
proof -
  note t = findApiPort_lowest_valid [of sample_world "''abc123''"]
  have p: "fst (findApiPort sample_world ''abc123'') = Some 8095"
  proof (cases "fst (findApiPort sample_world ''abc123'')")
    case None
    with t have "\<not> validates sample_world ''abc123'' 8095"
      by (simp add: PORT_START_def PORT_END_def)
    then show ?thesis by (simp add: validates_sample)
  next
    case (Some q)
    with t have "validates sample_world ''abc123'' q" by simp
    with Some show ?thesis by (simp add: validates_sample)
  qed
  from t have h: "Handshake q \<in> set (snd (findApiPort sample_world ''abc123''))
                   \<longleftrightarrow> PORT_START \<le> q \<and> q \<le> PORT_END \<and> isPortOpen sample_world q" for q
    by blast
  have o: "isPortOpen sample_world q \<longleftrightarrow> q = 8095" for q
    by (simp add: isPortOpen_def sample_world_def)
  show ?thesis
    using p by (simp add: h o PORT_START_def PORT_END_def)
qed

subsection \<open>Fetching\<close>

lemma checkPort_no_status: "filter is_status_request (snd (checkPort w p token)) = []"
  by (simp add: checkPort_def)

lemma findApiPort_no_status: "filter is_status_request (snd (findApiPort w token)) = []"
proof -
  have "filter is_status_request (concat (map (\<lambda>p. snd (checkPort w p token)) ps)) = []" for ps
    by (induction ps) (simp_all add: checkPort_no_status)
  then show ?thesis
    by (simp add: findApiPort_def Let_def comp_def)
qed

lemma connect_from_no_status:
  "filter is_status_request (snd (snd (connect_from ws mx attempt n f))) = []"
proof (induction n arbitrary: attempt)
  case 0
  show ?case by simp
next
  case (Suc n)
  have rest: "filter is_status_request (snd (snd (connect_from ws mx (Suc attempt) n f))) = []"
    by (rule Suc.IH)
  have fp: "filter is_status_request evs = []"
    if "findApiPort (ws attempt) token = (r, evs)" for token r evs
    using findApiPort_no_status [of "ws attempt" token] that by simp
  show ?case
    using rest fp
    by (auto simp: Let_def split: option.splits prod.splits if_splits)
qed

lemma connect_no_status: "filter is_status_request (snd (snd (connect ws mx f))) = []"
  by (simp add: connect_def connect_from_no_status)

lemma makeApiRequest_connected:
  "connection f = Some c \<Longrightarrow> snd (makeApiRequest w f) = [StatusRequest (port c)]"
  by (simp add: makeApiRequest_def)

lemma status_fails_iff:
  "connection f = Some c \<Longrightarrow>
     status_fails now w c \<longleftrightarrow>
       (case fst (makeApiRequest w f) of Inl e \<Rightarrow> True | Inr d \<Rightarrow> isl (parseResponse now w d))"
  by (auto simp: status_fails_def makeApiRequest_def split: http_result.splits option.splits)

lemma status_succeeds:
  "\<not> status_fails now w c \<Longrightarrow>
     \<exists>d r. statusReply w (port c) (csrfToken_c c) = HttpResponse 200 (Some d)
          \<and> parseResponse now w d = Inr r"
  by (auto simp: status_fails_def isl_def split: http_result.splits option.splits)
     (metis sum.exhaust)

lemma connect_from_connected:
  "fst (connect_from ws mx attempt n f) \<Longrightarrow>
     connection (fst (snd (connect_from ws mx attempt n f))) \<noteq> None"
proof (induction n arbitrary: attempt)
  case 0
  then show ?case by simp
next
  case (Suc n)
  have rest: "fst (connect_from ws mx (Suc attempt) n f) \<Longrightarrow>
                connection (fst (snd (connect_from ws mx (Suc attempt) n f))) \<noteq> None"
    by (rule Suc.IH)
  show ?case
    using Suc.prems rest
    by (auto simp: Let_def split: option.splits prod.splits if_splits)
qed

lemma connect_connected:
  "fst (connect ws mx f) \<Longrightarrow> connection (fst (snd (connect ws mx f))) \<noteq> None"
  by (simp add: connect_def connect_from_connected)

lemma connected_fetcher_connected:
  "connection f \<noteq> None \<or> fst (connect ws 3 f) \<Longrightarrow> connection (connected_fetcher ws f) \<noteq> None"
  using connect_connected [of ws 3 f] by (auto simp: connected_fetcher_def)

text \<open>The two ways through \<open>fetch\<close>.\<close>

lemma fetch_undiscovered:
  "connection f = None \<Longrightarrow> \<not> fst (connect ws 3 f) \<Longrightarrow>
     fetch now ws w f = (Inr None, fst (snd (connect ws 3 f)), snd (snd (connect ws 3 f)))"
  by (cases "connect ws 3 f") (simp add: fetch_def Let_def)

lemma fetch_unfold:
  "fetch now ws w f =
     (if connection f = None \<and> \<not> fst (connect ws 3 f)
      then (Inr None, fst (snd (connect ws 3 f)), snd (snd (connect ws 3 f)))
      else
        let f1 = connected_fetcher ws f;
            evs1 = (if connection f = None then snd (snd (connect ws 3 f)) else []);
            evs2 = snd (makeApiRequest w f1)
        in if (case fst (makeApiRequest w f1) of
                 Inl e \<Rightarrow> True
               | Inr d \<Rightarrow> isl (parseResponse now w d))
           then (Inr None, f1\<lparr>connection := None\<rparr>, evs1 @ evs2)
           else (Inr (Some (projr (parseResponse now w (projr (fst (makeApiRequest w f1)))))),
                 f1, evs1 @ evs2))"
  by (auto simp: fetch_def connected_fetcher_def Let_def split: prod.splits sum.splits)

lemma fetch_connected:
  assumes "connection f \<noteq> None \<or> fst (connect ws 3 f)"
    and "connection (connected_fetcher ws f) = Some c"
  shows "fetch now ws w f =
     (if status_fails now w c
      then (Inr None, (connected_fetcher ws f)\<lparr>connection := None\<rparr>,
            (if connection f = None then snd (snd (connect ws 3 f)) else [])
              @ [StatusRequest (port c)])
      else (Inr (Some (projr (parseResponse now w (projr (fst (makeApiRequest w (connected_fetcher ws f))))))),
            connected_fetcher ws f,
            (if connection f = None then snd (snd (connect ws 3 f)) else [])
              @ [StatusRequest (port c)]))"
proof -
  let ?f1 = "connected_fetcher ws f"
  have ev: "snd (makeApiRequest w ?f1) = [StatusRequest (port c)]"
    using assms(2) by (rule makeApiRequest_connected)
  have sf: "(case fst (makeApiRequest w ?f1) of Inl e \<Rightarrow> True | Inr d \<Rightarrow> isl (parseResponse now w d))
              \<longleftrightarrow> status_fails now w c"
    using status_fails_iff [OF assms(2), of now w] by simp
  from assms(1) have n: "\<not> (connection f = None \<and> \<not> fst (connect ws 3 f))"
    by auto
  show ?thesis
    by (subst fetch_unfold) (simp only: n if_False Let_def ev sf)
qed

text \<open>
  C5. \<open>fetch\<close> never throws. Without a cached connection it attempts discovery first;
  when discovery fails it returns \<open>null\<close> and has done nothing but the discovery. With a
  connection, cached or just discovered, it sends the status request once, to the port
  of the connection. When the request or the parsing of its answer fails, it returns
  \<open>null\<close> and clears the cached connection; otherwise it returns the parsed answer and
  keeps the connection.
\<close>

theorem fetch_never_throws:
  "(\<exists>r. fst (fetch now ws w f) = Inr r)
   \<and> (connection f = None \<longrightarrow>
        prefix (snd (snd (connect ws 3 f))) (snd (snd (fetch now ws w f))))
   \<and> (connection f = None \<and> \<not> fst (connect ws 3 f) \<longrightarrow>
        fetch now ws w f = (Inr None, fst (snd (connect ws 3 f)), snd (snd (connect ws 3 f)))
        \<and> filter is_status_request (snd (snd (fetch now ws w f))) = [])
   \<and> (connection f \<noteq> None \<or> fst (connect ws 3 f) \<longrightarrow>
        (\<exists>c. connection (connected_fetcher ws f) = Some c
            \<and> filter is_status_request (snd (snd (fetch now ws w f))) = [StatusRequest (port c)]
            \<and> (status_fails now w c \<longrightarrow>
                  fst (fetch now ws w f) = Inr None
                  \<and> fst (snd (fetch now ws w f)) = (connected_fetcher ws f)\<lparr>connection := None\<rparr>)
            \<and> (\<not> status_fails now w c \<longrightarrow>
                  (\<exists>d r. statusReply w (port c) (csrfToken_c c) = HttpResponse 200 (Some d)
                        \<and> parseResponse now w d = Inr r
                        \<and> fst (fetch now ws w f) = Inr (Some r))
                  \<and> fst (snd (fetch now ws w f)) = connected_fetcher ws f)))
   \<and> length (filter is_status_request (snd (snd (fetch now ws w f)))) \<le> 1"
proof (cases "connection f = None \<and> \<not> fst (connect ws 3 f)")
  case True
  then have "fetch now ws w f = (Inr None, fst (snd (connect ws 3 f)), snd (snd (connect ws 3 f)))"
    by (simp add: fetch_undiscovered)
  with True show ?thesis
    by (simp add: connect_no_status)
next
  case False
  then have con: "connection f \<noteq> None \<or> fst (connect ws 3 f)" by auto
  then obtain c where c: "connection (connected_fetcher ws f) = Some c"
    using connected_fetcher_connected [of f ws] by blast
  note fc = fetch_connected [OF con c, of now w]
  let ?evs1 = "if connection f = None then snd (snd (connect ws 3 f)) else []"
  have evs: "snd (snd (fetch now ws w f)) = ?evs1 @ [StatusRequest (port c)]"
    by (simp add: fc)
  have nostat: "filter is_status_request ?evs1 = []"
    by (simp add: connect_no_status)
  have a: "\<exists>r. fst (fetch now ws w f) = Inr r"
    by (simp add: fc)
  have b: "connection f = None \<longrightarrow>
             prefix (snd (snd (connect ws 3 f))) (snd (snd (fetch now ws w f)))"
    by (simp add: evs)
  have req: "filter is_status_request (snd (snd (fetch now ws w f))) = [StatusRequest (port c)]"
    by (simp only: evs filter_append nostat) simp
  have fail: "fst (fetch now ws w f) = Inr None
              \<and> fst (snd (fetch now ws w f)) = (connected_fetcher ws f)\<lparr>connection := None\<rparr>"
    if "status_fails now w c"
    using that by (simp add: fc)
  have succ: "(\<exists>d r. statusReply w (port c) (csrfToken_c c) = HttpResponse 200 (Some d)
                   \<and> parseResponse now w d = Inr r
                   \<and> fst (fetch now ws w f) = Inr (Some r))
              \<and> fst (snd (fetch now ws w f)) = connected_fetcher ws f"
    if ns: "\<not> status_fails now w c"
  proof -
    from status_succeeds [OF ns] obtain d r where
      d: "statusReply w (port c) (csrfToken_c c) = HttpResponse 200 (Some d)"
      and r: "parseResponse now w d = Inr r"
      by blast
    from c d have "fst (makeApiRequest w (connected_fetcher ws f)) = Inr d"
      by (simp add: makeApiRequest_def)
    with r ns have "fst (fetch now ws w f) = Inr (Some r)"
      by (simp add: fc)
    with d r ns show ?thesis
      by (auto simp: fc)
  qed
  show ?thesis
    using False a b c req fail succ by (auto simp: req)
qed

lemma findApiPort_sample:
  "findApiPort sample_world ''abc123'' = (Some 8095, snd (findApiPort sample_world ''abc123''))"
proof -
  have "(LEAST p. PORT_START \<le> p \<and> p \<le> PORT_END \<and> validates sample_world ''abc123'' p) = 8095"
    by (rule Least_equality) (simp_all add: validates_sample PORT_START_def PORT_END_def)
  moreover have "\<exists>p. PORT_START \<le> p \<and> p \<le> PORT_END \<and> validates sample_world ''abc123'' p"
    by (rule exI [of _ 8095]) (simp add: validates_sample PORT_START_def PORT_END_def)
  ultimately have "fst (findApiPort sample_world ''abc123'') = Some 8095"
    by (simp only: findApiPort_result if_True)
  then show ?thesis
    by (simp add: prod_eq_iff)
qed

lemma connect_sample:
  "connect (\<lambda>n. sample_world) 3 idle_fetcher =
     (True, idle_fetcher\<lparr>connection := Some \<lparr>port = 8095, csrfToken_c = ''abc123''\<rparr>\<rparr>,
      snd (findApiPort sample_world ''abc123''))"
proof -
  have g: "getProcessInfo sample_world
             = Some \<lparr>pid = 4242, extensionPort = 0, csrfToken = ''abc123''\<rparr>"
    by (simp add: getProcessInfo_def sample_world_def)
  obtain evs where e: "findApiPort sample_world ''abc123'' = (Some 8095, evs)"
    using findApiPort_sample by blast
  have "connect_from (\<lambda>n. sample_world) (Suc (Suc (Suc 0))) (Suc 0) (Suc (Suc (Suc 0))) idle_fetcher =
     (True, idle_fetcher\<lparr>connection := Some \<lparr>port = 8095, csrfToken_c = ''abc123''\<rparr>\<rparr>, evs)"
    by (simp add: g e)
  then show ?thesis
    by (simp add: connect_def numeral_3_eq_3 e)
qed

lemma findApiPort_sample_handshake:
  "Handshake 8095 \<in> set (snd (findApiPort sample_world ''abc123''))"
  by (simp add: findApiPort_handshakes PORT_START_def PORT_END_def isPortOpen_def sample_world_def)

theorem fetch_never_throws_witness:
  "fst (fetch 0 (\<lambda>n. sample_world) sample_world idle_fetcher) = Inr None
   \<and> connection (fst (snd (fetch 0 (\<lambda>n. sample_world) sample_world idle_fetcher))) = None
   \<and> filter is_status_request (snd (snd (fetch 0 (\<lambda>n. sample_world) sample_world idle_fetcher)))
       = [StatusRequest 8095]
   \<and> Handshake 8095 \<in> set (snd (snd (fetch 0 (\<lambda>n. sample_world) sample_world idle_fetcher)))
   \<and> (\<exists>r. parseResponse 0 serving_world sample_status = Inr r
          \<and> fst (fetch 0 (\<lambda>n. sample_world) serving_world cached_fetcher) = Inr (Some r))
   \<and> fst (snd (fetch 0 (\<lambda>n. sample_world) serving_world cached_fetcher)) = cached_fetcher
   \<and> snd (snd (fetch 0 (\<lambda>n. sample_world) serving_world cached_fetcher)) = [StatusRequest 8095]"
proof -
  let ?ws = "\<lambda>n::nat. sample_world"
  let ?c = "\<lparr>port = 8095, csrfToken_c = ''abc123''\<rparr>"
  have idle: "connection idle_fetcher = None"
    by (simp add: idle_fetcher_def)
  have con1: "fst (connect ?ws 3 idle_fetcher)"
    by (simp add: connect_sample)
  have cf1: "connected_fetcher ?ws idle_fetcher = idle_fetcher\<lparr>connection := Some ?c\<rparr>"
    using idle by (simp add: connected_fetcher_def connect_sample)
  have sf1: "status_fails 0 sample_world ?c"
    by (simp add: status_fails_def sample_world_def)
  note t1 = fetch_never_throws [of 0 ?ws sample_world idle_fetcher]
  from t1 con1 cf1 sf1 have r1:
    "fst (fetch 0 ?ws sample_world idle_fetcher) = Inr None
     \<and> connection (fst (snd (fetch 0 ?ws sample_world idle_fetcher))) = None
     \<and> filter is_status_request (snd (snd (fetch 0 ?ws sample_world idle_fetcher)))
         = [StatusRequest 8095]"
    by auto
  from t1 idle have "prefix (snd (snd (connect ?ws 3 idle_fetcher)))
                       (snd (snd (fetch 0 ?ws sample_world idle_fetcher)))"
    by blast
  then have "set (snd (findApiPort sample_world ''abc123''))
               \<subseteq> set (snd (snd (fetch 0 ?ws sample_world idle_fetcher)))"
    by (simp add: connect_sample set_mono_prefix)
  with findApiPort_sample_handshake have h1:
    "Handshake 8095 \<in> set (snd (snd (fetch 0 ?ws sample_world idle_fetcher)))"
    by blast
  have cached: "connection cached_fetcher = Some ?c"
    by (simp add: cached_fetcher_def)
  then have cf2: "connected_fetcher ?ws cached_fetcher = cached_fetcher"
    by (simp add: connected_fetcher_def)
  have reply: "statusReply serving_world 8095 ''abc123'' = HttpResponse 200 (Some sample_status)"
    by (simp add: serving_world_def)
  have "\<not> isl (parseResponse 0 serving_world sample_status)"
    by code_simp
  with reply have sf2: "\<not> status_fails 0 serving_world ?c"
    by (simp add: status_fails_def)
  note t2 = fetch_never_throws [of 0 ?ws serving_world cached_fetcher]
  from t2 cached cf2 sf2 reply have r2:
    "(\<exists>r. parseResponse 0 serving_world sample_status = Inr r
          \<and> fst (fetch 0 ?ws serving_world cached_fetcher) = Inr (Some r))
     \<and> fst (snd (fetch 0 ?ws serving_world cached_fetcher)) = cached_fetcher"
    by auto
  have ev2: "snd (snd (fetch 0 ?ws serving_world cached_fetcher)) = [StatusRequest 8095]"
    using cached by (simp add: fetch_def makeApiRequest_def Let_def split: prod.splits sum.splits)
  show ?thesis
    using r1 h1 r2 ev2 by blast
qed

subsection \<open>The store\<close>

text \<open>
  C10. Dispatching \<open>ERROR\<close> with a message sets \<open>isLoading\<close> to false and \<open>error\<close> to the
  message and leaves the models, both credit pools, the health, the session start and
  the last update of the state as they were; the subscribers stay subscribed.
\<close>

theorem dispatch_ERROR_frame:
  "(let st' = state (fst (dispatch now (ERROR msg) store)) in
      isLoading st' = False \<and> error st' = Some msg
      \<and> models_s st' = models_s (state store)
      \<and> promptCredits_s st' = promptCredits_s (state store)
      \<and> flowCredits_s st' = flowCredits_s (state store)
      \<and> health st' = health (state store)
      \<and> sessionStart st' = sessionStart (state store)
      \<and> lastUpdate st' = lastUpdate (state store))
   \<and> subscribers (fst (dispatch now (ERROR msg) store)) = subscribers store"
  by (simp add: dispatch_def Let_def)

theorem dispatch_ERROR_frame_witness:
  "error (state (fst (dispatch 6000 (ERROR ''Could not connect to Antigravity'') loaded_store)))
     = Some ''Could not connect to Antigravity''
   \<and> \<not> isLoading (state (fst (dispatch 6000 (ERROR ''Could not connect to Antigravity'') loaded_store)))
   \<and> lastUpdate (state (fst (dispatch 6000 (ERROR ''Could not connect to Antigravity'') loaded_store)))
       = 5000
   \<and> models_s (state (fst (dispatch 6000 (ERROR ''Could not connect to Antigravity'') loaded_store)))
       = fst (fst first_poll)"
  using dispatch_ERROR_frame [of 6000 "''Could not connect to Antigravity''" loaded_store]
  by (simp add: Let_def loaded_store_def)

end
